theory Spec2Isabelle
  imports Main
begin

section \<open>Data model\<close>

text \<open>
  The tables of the migrations under \<^verbatim>\<open>supabase/migrations\<close> as records, one
  record per row and one list per table. Only the columns that a policy, a trigger or
  the notification function reads are kept; surrogate keys that nothing reads and the
  timestamp columns are left out. A nullable column is an \<open>option\<close>; the author of an
  answer is one too, since an insert may leave it out.
\<close>

type_synonym uuid = string

datatype app_role = Admin | Responder | Employee

datatype vote_type = Up | Down

record department =
  d_id :: uuid
  d_name :: string

record profile =
  p_user_id :: uuid
  p_email :: string
  p_full_name :: "string option"
  p_avatar_url :: "string option"
  p_department_id :: "uuid option"

record user_role =
  ur_user_id :: uuid
  ur_role :: app_role

record question =
  q_id :: uuid
  q_title :: string
  q_content :: string
  q_department_id :: "uuid option"
  q_is_anonymous :: bool
  q_author_id :: "uuid option"
  q_status :: "string option"
  upvotes :: int
  downvotes :: int

record answer =
  a_question_id :: uuid
  a_content :: string
  a_author_id :: "uuid option"
  a_is_official :: bool

record vote =
  v_question_id :: uuid
  v_user_id :: uuid
  v_vote_type :: vote_type

record department_admin =
  da_user_id :: uuid
  da_department_id :: uuid

text \<open>
  \<^verbatim>\<open>auth.users\<close> is the table of the authentication service that the author and
  voter columns reference; of its rows only the ids are kept.
\<close>

record database =
  auth_users :: "uuid list"
  departments :: "department list"
  profiles :: "profile list"
  user_roles :: "user_role list"
  questions :: "question list"
  answers :: "answer list"
  votes :: "vote list"
  department_admins :: "department_admin list"

text \<open>The errors PostgreSQL raises for a rejected statement, by condition name.\<close>

datatype pg_error =
  insufficient_privilege
  | check_violation
  | unique_violation
  | foreign_key_violation
  | not_null_violation
  | numeric_value_out_of_range

section \<open>Vote aggregation: the trigger \<^verbatim>\<open>update_question_votes\<close>\<close>

text \<open>
  The counters are \<^verbatim>\<open>INTEGER\<close> columns: a value outside the 32-bit range makes the
  \<^verbatim>\<open>UPDATE\<close> raise, which aborts the statement that fired the trigger.
\<close>

definition int4_ok :: "int \<Rightarrow> bool" where
  "int4_ok n = (- 2147483648 \<le> n \<and> n \<le> 2147483647)"

text \<open>
  \<^verbatim>\<open>UPDATE public.questions SET upvotes = upvotes + d WHERE id = qid\<close> and its twin
  for \<^verbatim>\<open>downvotes\<close>. No row with that id: no row is changed.
\<close>

definition add_upvotes :: "int \<Rightarrow> uuid \<Rightarrow> question list \<Rightarrow> pg_error + question list" where
  "add_upvotes d qid qs =
     (if \<exists>r \<in> set qs. q_id r = qid \<and> \<not> int4_ok (upvotes r + d)
      then Inl numeric_value_out_of_range
      else Inr (map (\<lambda>r. if q_id r = qid then r\<lparr>upvotes := upvotes r + d\<rparr> else r) qs))"

definition add_downvotes :: "int \<Rightarrow> uuid \<Rightarrow> question list \<Rightarrow> pg_error + question list" where
  "add_downvotes d qid qs =
     (if \<exists>r \<in> set qs. q_id r = qid \<and> \<not> int4_ok (downvotes r + d)
      then Inl numeric_value_out_of_range
      else Inr (map (\<lambda>r. if q_id r = qid then r\<lparr>downvotes := downvotes r + d\<rparr> else r) qs))"

text \<open>The trigger's event: \<^verbatim>\<open>TG_OP\<close> with the \<^verbatim>\<open>OLD\<close> and \<^verbatim>\<open>NEW\<close> rows it comes with.\<close>

datatype tg_event = TG_INSERT vote | TG_DELETE vote | TG_UPDATE vote vote

fun update_question_votes :: "tg_event \<Rightarrow> question list \<Rightarrow> pg_error + question list" where
  "update_question_votes (TG_INSERT new) qs =
     (if v_vote_type new = Up then add_upvotes 1 (v_question_id new) qs
      else add_downvotes 1 (v_question_id new) qs)"
| "update_question_votes (TG_DELETE old) qs =
     (if v_vote_type old = Up then add_upvotes (- 1) (v_question_id old) qs
      else add_downvotes (- 1) (v_question_id old) qs)"
| "update_question_votes (TG_UPDATE old new) qs =
     (case (if v_vote_type old = Up then add_upvotes (- 1) (v_question_id old) qs
            else add_downvotes (- 1) (v_question_id old) qs) of
        Inl e \<Rightarrow> Inl e
      | Inr qs1 \<Rightarrow>
          (if v_vote_type new = Up then add_upvotes 1 (v_question_id new) qs1
           else add_downvotes 1 (v_question_id new) qs1))"

text \<open>
  The three row-level changes of the \<^verbatim>\<open>votes\<close> table, each with the
  \<^verbatim>\<open>AFTER ... FOR EACH ROW\<close> trigger run inside the same statement. A row is
  addressed by its unique pair \<^verbatim>\<open>(question_id, user_id)\<close>, as the client does. A
  statement that matches no row changes nothing and fires no trigger; a statement that
  raises leaves the database as it was. A reference is checked when the row is inserted
  and when an update changes the referencing column. The trigger is \<^verbatim>\<open>SECURITY DEFINER\<close>: who runs
  the statement plays no part in what it does to the counters.
\<close>

definition vote_at :: "uuid \<Rightarrow> uuid \<Rightarrow> vote list \<Rightarrow> vote option" where
  "vote_at qid uid vs = find (\<lambda>v. v_question_id v = qid \<and> v_user_id v = uid) vs"

definition question_exists :: "uuid \<Rightarrow> database \<Rightarrow> bool" where
  "question_exists qid db = (\<exists>r \<in> set (questions db). q_id r = qid)"

definition user_exists :: "uuid \<Rightarrow> database \<Rightarrow> bool" where
  "user_exists uid db = (uid \<in> set (auth_users db))"

definition insert_vote :: "vote \<Rightarrow> database \<Rightarrow> pg_error + database" where
  "insert_vote new db =
     (if vote_at (v_question_id new) (v_user_id new) (votes db) \<noteq> None then Inl unique_violation
      else if \<not> question_exists (v_question_id new) db \<or> \<not> user_exists (v_user_id new) db
      then Inl foreign_key_violation
      else case update_question_votes (TG_INSERT new) (questions db) of
             Inl e \<Rightarrow> Inl e
           | Inr qs \<Rightarrow> Inr (db\<lparr>votes := votes db @ [new], questions := qs\<rparr>))"

definition delete_vote :: "uuid \<Rightarrow> uuid \<Rightarrow> database \<Rightarrow> pg_error + database" where
  "delete_vote qid uid db =
     (case vote_at qid uid (votes db) of
        None \<Rightarrow> Inr db
      | Some old \<Rightarrow>
          (case update_question_votes (TG_DELETE old) (questions db) of
             Inl e \<Rightarrow> Inl e
           | Inr qs \<Rightarrow> Inr (db\<lparr>votes := remove1 old (votes db), questions := qs\<rparr>)))"

definition update_vote :: "uuid \<Rightarrow> uuid \<Rightarrow> vote \<Rightarrow> database \<Rightarrow> pg_error + database" where
  "update_vote qid uid new db =
     (case vote_at qid uid (votes db) of
        None \<Rightarrow> Inr db
      | Some old \<Rightarrow>
          (if vote_at (v_question_id new) (v_user_id new) (remove1 old (votes db)) \<noteq> None
           then Inl unique_violation
           else if (v_question_id new \<noteq> v_question_id old \<and> \<not> question_exists (v_question_id new) db)
                   \<or> (v_user_id new \<noteq> v_user_id old \<and> \<not> user_exists (v_user_id new) db)
           then Inl foreign_key_violation
           else case update_question_votes (TG_UPDATE old new) (questions db) of
                  Inl e \<Rightarrow> Inl e
                | Inr qs \<Rightarrow> Inr (db\<lparr>votes := remove1 old (votes db) @ [new], questions := qs\<rparr>)))"

datatype vote_op = InsertVote vote | UpdateVote uuid uuid vote | DeleteVote uuid uuid

fun apply_vote_op :: "vote_op \<Rightarrow> database \<Rightarrow> pg_error + database" where
  "apply_vote_op (InsertVote new) db = insert_vote new db"
| "apply_vote_op (UpdateVote qid uid new) db = update_vote qid uid new db"
| "apply_vote_op (DeleteVote qid uid) db = delete_vote qid uid db"

text \<open>A sequence of statements: one that raises is rolled back and the next one runs.\<close>

fun run_vote_ops :: "vote_op list \<Rightarrow> database \<Rightarrow> database" where
  "run_vote_ops [] db = db"
| "run_vote_ops (op # ops) db =
     (case apply_vote_op op db of
        Inl e \<Rightarrow> run_vote_ops ops db
      | Inr db' \<Rightarrow> run_vote_ops ops db')"

definition count_votes :: "vote_type \<Rightarrow> uuid \<Rightarrow> vote list \<Rightarrow> nat" where
  "count_votes t qid vs = length (filter (\<lambda>v. v_question_id v = qid \<and> v_vote_type v = t) vs)"

definition counters_match :: "vote list \<Rightarrow> question \<Rightarrow> bool" where
  "counters_match vs r =
     (upvotes r = int (count_votes Up (q_id r) vs) \<and>
      downvotes r = int (count_votes Down (q_id r) vs))"

definition ledger_consistent :: "database \<Rightarrow> bool" where
  "ledger_consistent db = (\<forall>r \<in> set (questions db). counters_match (votes db) r)"


text \<open>The constraints of the two tables that the vote statements rely on.\<close>

definition votes_unique :: "database \<Rightarrow> bool" where
  "votes_unique db = distinct (map (\<lambda>v. (v_question_id v, v_user_id v)) (votes db))"

definition questions_unique :: "database \<Rightarrow> bool" where
  "questions_unique db = distinct (map q_id (questions db))"

section \<open>Row-level security\<close>

text \<open>
  SQL's three-valued booleans: \<open>None\<close> is \<^verbatim>\<open>NULL\<close>. A policy admits a row only when
  its expression is true; \<^verbatim>\<open>NULL\<close> rejects like false.
\<close>

type_synonym sql_bool = "bool option"

definition sql_eq :: "'a option \<Rightarrow> 'a option \<Rightarrow> sql_bool" where
  "sql_eq a b = (case (a, b) of (Some x, Some y) \<Rightarrow> Some (x = y) | _ \<Rightarrow> None)"

definition sql_is_null :: "'a option \<Rightarrow> sql_bool" where
  "sql_is_null a = Some (a = None)"

fun sql_and :: "sql_bool \<Rightarrow> sql_bool \<Rightarrow> sql_bool" where
  "sql_and (Some False) b = Some False"
| "sql_and a (Some False) = Some False"
| "sql_and (Some True) (Some True) = Some True"
| "sql_and a b = None"

fun sql_or :: "sql_bool \<Rightarrow> sql_bool \<Rightarrow> sql_bool" where
  "sql_or (Some True) b = Some True"
| "sql_or a (Some True) = Some True"
| "sql_or (Some False) (Some False) = Some False"
| "sql_or a b = None"

text \<open>
  The caller of a statement: the database role the API maps it to, and \<^verbatim>\<open>auth.uid()\<close>,
  which is \<^verbatim>\<open>NULL\<close> for a caller that is not signed in.
\<close>

datatype pg_role = anon | authenticated

datatype caller = Visitor | User uuid

fun auth_uid :: "caller \<Rightarrow> uuid option" where
  "auth_uid Visitor = None"
| "auth_uid (User u) = Some u"

fun current_role :: "caller \<Rightarrow> pg_role" where
  "current_role Visitor = anon"
| "current_role (User u) = authenticated"

text \<open>
  \<^verbatim>\<open>has_role\<close> and \<^verbatim>\<open>is_admin_or_responder\<close>: \<^verbatim>\<open>SELECT EXISTS (...)\<close> is never
  \<^verbatim>\<open>NULL\<close>; for a \<^verbatim>\<open>NULL\<close> user id no row matches.
\<close>

definition has_role :: "database \<Rightarrow> uuid option \<Rightarrow> app_role \<Rightarrow> bool" where
  "has_role db user_id role' =
     (\<exists>r \<in> set (user_roles db). sql_eq (Some (ur_user_id r)) user_id = Some True \<and> ur_role r = role')"

definition is_admin_or_responder :: "database \<Rightarrow> uuid option \<Rightarrow> bool" where
  "is_admin_or_responder db user_id =
     (\<exists>r \<in> set (user_roles db). sql_eq (Some (ur_user_id r)) user_id = Some True
        \<and> ur_role r \<in> {Admin, Responder})"

datatype command = FOR_SELECT | FOR_INSERT | FOR_UPDATE | FOR_DELETE | FOR_ALL

text \<open>
  A policy: its name, its command, the roles of its \<^verbatim>\<open>TO\<close> clause (none written:
  every role) and its one expression, \<^verbatim>\<open>USING\<close> or \<^verbatim>\<open>WITH CHECK\<close> (no policy of
  the migrations has both).
\<close>

record 'row policy =
  pol_name :: string
  pol_for :: command
  pol_to :: "pg_role list"
  pol_expr :: "database \<Rightarrow> uuid option \<Rightarrow> 'row \<Rightarrow> sql_bool"

datatype 'row ddl = CREATE_POLICY "'row policy" | DROP_POLICY_IF_EXISTS string

text \<open>\<^verbatim>\<open>CREATE POLICY\<close> under a name the table already has raises and adds nothing.\<close>

fun run_ddl :: "'row policy list \<Rightarrow> 'row ddl \<Rightarrow> 'row policy list" where
  "run_ddl ps (CREATE_POLICY p) =
     (if list_ex (\<lambda>p'. pol_name p' = pol_name p) ps then ps else ps @ [p])"
| "run_ddl ps (DROP_POLICY_IF_EXISTS n) = filter (\<lambda>p. pol_name p \<noteq> n) ps"

definition migrate :: "'row ddl list \<Rightarrow> 'row policy list" where
  "migrate ds = foldl run_ddl [] ds"

text \<open>
  All policies are permissive: a statement passes when one policy for its command and
  the caller's role holds of the row. No policy: nothing passes.
\<close>

definition policy_applies :: "'row policy \<Rightarrow> command \<Rightarrow> pg_role \<Rightarrow> bool" where
  "policy_applies p cmd r =
     ((pol_for p = cmd \<or> pol_for p = FOR_ALL) \<and> (pol_to p = [] \<or> r \<in> set (pol_to p)))"

definition rls_permits :: "'row policy list \<Rightarrow> database \<Rightarrow> caller \<Rightarrow> command \<Rightarrow> 'row \<Rightarrow> bool" where
  "rls_permits ps db c cmd row =
     list_ex (\<lambda>p. policy_applies p cmd (current_role c) \<and> pol_expr p db (auth_uid c) row = Some True) ps"


section \<open>The policies of the migrations\<close>

text \<open>
  Each table's policies are what its \<^verbatim>\<open>CREATE POLICY\<close> and \<^verbatim>\<open>DROP POLICY\<close>
  statements leave, run in the order of the migrations: the initial schema
  (\<^verbatim>\<open>20260120151732\<close>), \<^verbatim>\<open>20260130115623\<close> (profiles), the three migrations kept
  without a file name, and \<^verbatim>\<open>20260130122658\<close> (questions). The unnamed ones are
  placed by what they refer to: the one that opens question creation to everybody
  drops the initial policy; the one that closes it again drops that one, and rebuilds the
  view \<^verbatim>\<open>profiles_public\<close> that \<^verbatim>\<open>20260130115623\<close> created; the one that switches
  the view back to \<^verbatim>\<open>security_invoker\<close> follows it; and \<^verbatim>\<open>20260130122658\<close> allows
  again the null author that the second of them had excluded. Every role of the API is
  taken to hold the table privileges, so the policies alone decide.
\<close>

definition questions_ddl :: "question ddl list" where
  "questions_ddl =
    [CREATE_POLICY \<lparr>pol_name = ''Questions are viewable by authenticated users'',
       pol_for = FOR_SELECT, pol_to = [authenticated],
       pol_expr = (\<lambda>db uid r. Some True)\<rparr>,
     CREATE_POLICY \<lparr>pol_name = ''Authenticated users can create questions'',
       pol_for = FOR_INSERT, pol_to = [authenticated],
       pol_expr = (\<lambda>db uid r. sql_or (sql_eq uid (q_author_id r)) (sql_is_null (q_author_id r)))\<rparr>,
     CREATE_POLICY \<lparr>pol_name = ''Admins can update questions'',
       pol_for = FOR_UPDATE, pol_to = [authenticated],
       pol_expr = (\<lambda>db uid r. Some (has_role db uid Admin))\<rparr>,
     CREATE_POLICY \<lparr>pol_name = ''Admins can delete questions'',
       pol_for = FOR_DELETE, pol_to = [authenticated],
       pol_expr = (\<lambda>db uid r. Some (has_role db uid Admin))\<rparr>,
     DROP_POLICY_IF_EXISTS ''Authenticated users can create questions'',
     CREATE_POLICY \<lparr>pol_name = ''Anyone can create questions'',
       pol_for = FOR_INSERT, pol_to = [anon, authenticated],
       pol_expr = (\<lambda>db uid r. Some True)\<rparr>,
     DROP_POLICY_IF_EXISTS ''Anyone can create questions'',
     CREATE_POLICY \<lparr>pol_name = ''Authenticated users can create questions'',
       pol_for = FOR_INSERT, pol_to = [authenticated],
       pol_expr = (\<lambda>db uid r. sql_eq uid (q_author_id r))\<rparr>,
     DROP_POLICY_IF_EXISTS ''Authenticated users can create questions'',
     CREATE_POLICY \<lparr>pol_name = ''Authenticated users can create questions'',
       pol_for = FOR_INSERT, pol_to = [authenticated],
       pol_expr = (\<lambda>db uid r.
         sql_or (sql_and (sql_eq (Some (q_is_anonymous r)) (Some True)) (sql_is_null (q_author_id r)))
                (sql_and (sql_eq (Some (q_is_anonymous r)) (Some False)) (sql_eq uid (q_author_id r))))\<rparr>]"

definition questions_policies :: "question policy list" where
  "questions_policies = migrate questions_ddl"

definition answers_ddl :: "answer ddl list" where
  "answers_ddl =
    [CREATE_POLICY \<lparr>pol_name = ''Answers are viewable by authenticated users'',
       pol_for = FOR_SELECT, pol_to = [authenticated],
       pol_expr = (\<lambda>db uid r. Some True)\<rparr>,
     CREATE_POLICY \<lparr>pol_name = ''Responders and admins can create answers'',
       pol_for = FOR_INSERT, pol_to = [authenticated],
       pol_expr = (\<lambda>db uid r.
         sql_and (Some (is_admin_or_responder db uid)) (sql_eq uid (a_author_id r)))\<rparr>,
     CREATE_POLICY \<lparr>pol_name = ''Authors and admins can update answers'',
       pol_for = FOR_UPDATE, pol_to = [authenticated],
       pol_expr = (\<lambda>db uid r. sql_or (sql_eq uid (a_author_id r)) (Some (has_role db uid Admin)))\<rparr>,
     CREATE_POLICY \<lparr>pol_name = ''Authors and admins can delete answers'',
       pol_for = FOR_DELETE, pol_to = [authenticated],
       pol_expr = (\<lambda>db uid r. sql_or (sql_eq uid (a_author_id r)) (Some (has_role db uid Admin)))\<rparr>]"

definition answers_policies :: "answer policy list" where
  "answers_policies = migrate answers_ddl"

definition user_roles_ddl :: "user_role ddl list" where
  "user_roles_ddl =
    [CREATE_POLICY \<lparr>pol_name = ''Users can view their own roles'',
       pol_for = FOR_SELECT, pol_to = [authenticated],
       pol_expr = (\<lambda>db uid r.
         sql_or (sql_eq uid (Some (ur_user_id r))) (Some (has_role db uid Admin)))\<rparr>,
     CREATE_POLICY \<lparr>pol_name = ''Admins can manage user roles'',
       pol_for = FOR_ALL, pol_to = [authenticated],
       pol_expr = (\<lambda>db uid r. Some (has_role db uid Admin))\<rparr>]"

definition user_roles_policies :: "user_role policy list" where
  "user_roles_policies = migrate user_roles_ddl"

definition profiles_ddl :: "profile ddl list" where
  "profiles_ddl =
    [CREATE_POLICY \<lparr>pol_name = ''Profiles are viewable by authenticated users'',
       pol_for = FOR_SELECT, pol_to = [authenticated],
       pol_expr = (\<lambda>db uid r. Some True)\<rparr>,
     CREATE_POLICY \<lparr>pol_name = ''Users can update their own profile'',
       pol_for = FOR_UPDATE, pol_to = [authenticated],
       pol_expr = (\<lambda>db uid r. sql_eq uid (Some (p_user_id r)))\<rparr>,
     CREATE_POLICY \<lparr>pol_name = ''Users can insert their own profile'',
       pol_for = FOR_INSERT, pol_to = [authenticated],
       pol_expr = (\<lambda>db uid r. sql_eq uid (Some (p_user_id r)))\<rparr>,
     DROP_POLICY_IF_EXISTS ''Profiles are viewable by authenticated users'',
     CREATE_POLICY \<lparr>pol_name = ''Users can view their own profile'',
       pol_for = FOR_SELECT, pol_to = [],
       pol_expr = (\<lambda>db uid r. sql_eq uid (Some (p_user_id r)))\<rparr>,
     CREATE_POLICY \<lparr>pol_name = ''Admins can view all profiles'',
       pol_for = FOR_SELECT, pol_to = [],
       pol_expr = (\<lambda>db uid r. Some (has_role db uid Admin))\<rparr>,
     CREATE_POLICY \<lparr>pol_name = ''Authenticated users can view profiles via public view'',
       pol_for = FOR_SELECT, pol_to = [authenticated],
       pol_expr = (\<lambda>db uid r. Some True)\<rparr>]"

definition profiles_policies :: "profile policy list" where
  "profiles_policies = migrate profiles_ddl"

section \<open>Statements under the policies\<close>

subsection \<open>Profiles and their public view\<close>

definition select_profiles :: "caller \<Rightarrow> database \<Rightarrow> profile list" where
  "select_profiles c db = filter (rls_permits profiles_policies db c FOR_SELECT) (profiles db)"

text \<open>
  \<^verbatim>\<open>profiles_public\<close> as its last \<^verbatim>\<open>CREATE VIEW\<close> leaves it: the columns without
  \<^verbatim>\<open>email\<close>, and \<^verbatim>\<open>security_invoker = on\<close>, so the policies of \<^verbatim>\<open>profiles\<close> are
  those of whoever reads the view.
\<close>

record profile_public =
  pp_user_id :: uuid
  pp_full_name :: "string option"
  pp_avatar_url :: "string option"
  pp_department_id :: "uuid option"

definition public_columns :: "profile \<Rightarrow> profile_public" where
  "public_columns p =
     \<lparr>pp_user_id = p_user_id p, pp_full_name = p_full_name p,
      pp_avatar_url = p_avatar_url p, pp_department_id = p_department_id p\<rparr>"

definition select_profiles_public :: "caller \<Rightarrow> database \<Rightarrow> profile_public list" where
  "select_profiles_public c db = map public_columns (select_profiles c db)"

subsection \<open>Creating a question\<close>

text \<open>
  The values of the new row are converted to the types of their columns before anything
  else looks at the row: a counter outside \<^verbatim>\<open>INTEGER\<close> raises there. Then the
  \<^verbatim>\<open>WITH CHECK\<close> of the insert policy is tested, and after it the table's constraints:
  the length checks of \<^verbatim>\<open>20260130120332\<close>, the check on \<^verbatim>\<open>status\<close> (which a
  \<^verbatim>\<open>NULL\<close> passes), the primary key, and the references to \<^verbatim>\<open>departments\<close> and,
  for an author that is not \<^verbatim>\<open>NULL\<close>, to \<^verbatim>\<open>auth.users\<close>.
\<close>

definition store_question :: "question \<Rightarrow> database \<Rightarrow> pg_error + database" where
  "store_question new db =
     (if 500 < length (q_title new) \<or> 10000 < length (q_content new) then Inl check_violation
      else if (case q_status new of None \<Rightarrow> False
               | Some s \<Rightarrow> s \<notin> {''open'', ''answered'', ''closed''}) then Inl check_violation
      else if question_exists (q_id new) db then Inl unique_violation
      else if (case q_department_id new of None \<Rightarrow> False
               | Some d \<Rightarrow> \<not> list_ex (\<lambda>x. d_id x = d) (departments db)) then Inl foreign_key_violation
      else if (case q_author_id new of None \<Rightarrow> False
               | Some a \<Rightarrow> \<not> user_exists a db) then Inl foreign_key_violation
      else Inr (db\<lparr>questions := questions db @ [new]\<rparr>))"

definition insert_question :: "question \<Rightarrow> caller \<Rightarrow> database \<Rightarrow> pg_error + database" where
  "insert_question new c db =
     (if \<not> int4_ok (upvotes new) \<or> \<not> int4_ok (downvotes new) then Inl numeric_value_out_of_range
      else if \<not> rls_permits questions_policies db c FOR_INSERT new then Inl insufficient_privilege
      else store_question new db)"

subsection \<open>Creating an answer\<close>

definition store_answer :: "answer \<Rightarrow> database \<Rightarrow> pg_error + database" where
  "store_answer new db =
     (if a_author_id new = None then Inl not_null_violation
      else if 10000 < length (a_content new) then Inl check_violation
      else if \<not> question_exists (a_question_id new) db then Inl foreign_key_violation
      else if (case a_author_id new of None \<Rightarrow> False
               | Some a \<Rightarrow> \<not> user_exists a db) then Inl foreign_key_violation
      else Inr (db\<lparr>answers := answers db @ [new]\<rparr>))"

definition insert_answer :: "answer \<Rightarrow> caller \<Rightarrow> database \<Rightarrow> pg_error + database" where
  "insert_answer new c db =
     (if \<not> rls_permits answers_policies db c FOR_INSERT new then Inl insufficient_privilege
      else store_answer new db)"

text \<open>
  \<^verbatim>\<open>UPDATE questions SET status = s WHERE id = qid\<close>: rows that the caller's policies
  for \<^verbatim>\<open>SELECT\<close> and \<^verbatim>\<open>UPDATE\<close> do not admit are not touched, and nothing is raised.
\<close>

definition update_question_status :: "uuid \<Rightarrow> string \<Rightarrow> caller \<Rightarrow> database \<Rightarrow> database" where
  "update_question_status qid s c db =
     db\<lparr>questions := map (\<lambda>r.
        if q_id r = qid \<and> rls_permits questions_policies db c FOR_SELECT r
           \<and> rls_permits questions_policies db c FOR_UPDATE r
        then r\<lparr>q_status := Some s\<rparr> else r) (questions db)\<rparr>"

subsection \<open>Removing role assignments\<close>

text \<open>
  \<^verbatim>\<open>DELETE FROM user_roles WHERE user_id = u AND role = r\<close>: only rows that the
  caller's policies for \<^verbatim>\<open>SELECT\<close> and \<^verbatim>\<open>DELETE\<close> admit are deleted.
\<close>

definition delete_user_role :: "uuid \<Rightarrow> app_role \<Rightarrow> caller \<Rightarrow> database \<Rightarrow> database" where
  "delete_user_role u role' c db =
     db\<lparr>user_roles := filter (\<lambda>r.
        \<not> (ur_user_id r = u \<and> ur_role r = role'
           \<and> rls_permits user_roles_policies db c FOR_SELECT r
           \<and> rls_permits user_roles_policies db c FOR_DELETE r)) (user_roles db)\<rparr>"


section \<open>The client: \<^verbatim>\<open>useAuth\<close>, \<^verbatim>\<open>QuestionDetail\<close> and \<^verbatim>\<open>Admin\<close>\<close>

text \<open>
  The state of \<^verbatim>\<open>AuthProvider\<close>: the signed-in user and the two flags that
  \<^verbatim>\<open>fetchProfile\<close> last computed from the user's roles.
\<close>

record auth_context =
  user :: "uuid option"
  isAdmin :: bool
  isResponder :: bool

definition client_caller :: "auth_context \<Rightarrow> caller" where
  "client_caller ctx = (case user ctx of None \<Rightarrow> Visitor | Some u \<Rightarrow> User u)"

text \<open>
  The part of \<^verbatim>\<open>fetchProfile\<close> that sets the flags: the rows of \<^verbatim>\<open>user_roles\<close> the
  user may read, filtered on \<^verbatim>\<open>user_id\<close>.
\<close>

definition fetchProfile :: "uuid \<Rightarrow> database \<Rightarrow> auth_context \<Rightarrow> auth_context" where
  "fetchProfile userId db ctx =
     (let roles = map ur_role (filter (\<lambda>r. ur_user_id r = userId
                    \<and> rls_permits user_roles_policies db (client_caller ctx) FOR_SELECT r)
                  (user_roles db))
      in ctx\<lparr>isAdmin := Admin \<in> set roles,
              isResponder := (Responder \<in> set roles \<or> Admin \<in> set roles)\<rparr>)"

text \<open>\<^verbatim>\<open>String.prototype.trim\<close>, on the white space of ASCII.\<close>

definition is_space :: "char \<Rightarrow> bool" where
  "is_space c = (c \<in> {CHR '' '', CHR 0x09, CHR 0x0A, CHR 0x0B, CHR 0x0C, CHR 0x0D})"

definition trim :: "string \<Rightarrow> string" where
  "trim s = rev (dropWhile is_space (rev (dropWhile is_space s)))"

text \<open>
  \<^verbatim>\<open>handleSubmitAnswer\<close>: the page's \<^verbatim>\<open>id\<close> is the route parameter; the result is
  the database and the title of the toast shown, if any.
\<close>

definition handleSubmitAnswer ::
  "auth_context \<Rightarrow> string \<Rightarrow> uuid option \<Rightarrow> database \<Rightarrow> database \<times> string option" where
  "handleSubmitAnswer ctx newAnswer id' db =
     (case (user ctx, id') of
        (Some u, Some qid) \<Rightarrow>
          (if trim newAnswer = [] \<or> qid = [] then (db, None)
           else case insert_answer
                  \<lparr>a_question_id = qid, a_content = trim newAnswer,
                   a_author_id = Some u, a_is_official = isResponder ctx\<rparr> (User u) db of
                  Inl e \<Rightarrow> (db, Some ''Failed to submit answer'')
                | Inr db' \<Rightarrow>
                    (update_question_status qid ''answered'' (User u) db',
                     Some ''Answer posted successfully!''))
      | _ \<Rightarrow> (db, None))"

text \<open>
  The answer form of the page is rendered under \<^verbatim>\<open>isResponder &&\<close>, and its button is
  disabled while a submission runs or the text is blank.
\<close>

definition post_answer_button ::
  "auth_context \<Rightarrow> bool \<Rightarrow> string \<Rightarrow> uuid option \<Rightarrow> database \<Rightarrow> database \<times> string option" where
  "post_answer_button ctx isSubmitting newAnswer id' db =
     (if isResponder ctx \<and> \<not> (isSubmitting \<or> trim newAnswer = [])
      then handleSubmitAnswer ctx newAnswer id' db
      else (db, None))"

text \<open>
  \<^verbatim>\<open>handleRemoveRole\<close> of the admin page. The role arrives as a string; one that
  is no label of \<^verbatim>\<open>app_role\<close> makes the store reject the filter.
\<close>

definition app_role_of :: "string \<Rightarrow> app_role option" where
  "app_role_of s =
     (if s = ''admin'' then Some Admin
      else if s = ''responder'' then Some Responder
      else if s = ''employee'' then Some Employee
      else None)"

definition handleRemoveRole ::
  "auth_context \<Rightarrow> uuid \<Rightarrow> string \<Rightarrow> database \<Rightarrow> database \<times> string" where
  "handleRemoveRole ctx userId role' db =
     (if role' = ''employee'' then (db, ''Cannot remove employee role'')
      else case app_role_of role' of
             None \<Rightarrow> (db, ''Failed to remove role'')
           | Some r \<Rightarrow> (delete_user_role userId r (client_caller ctx) db, ''Role removed successfully''))"


section \<open>The notification function \<^verbatim>\<open>notify-department-admins\<close>\<close>

text \<open>
  The handler of \<^verbatim>\<open>supabase/functions/notify-department-admins/index.ts\<close>. What it
  reaches outside itself is a record: the database (read with the service role, which no
  policy restricts), the authentication service, the mail transport, and for each query
  whether the store fails to answer it. A send either returns or throws.
\<close>

record question_payload =
  qp_id :: "string option"
  qp_title :: string
  qp_content :: string
  qp_department_id :: "string option"
  qp_is_anonymous :: bool
  qp_author_id :: "string option"

text \<open>
  The body of the request as \<^verbatim>\<open>await req.json()\<close> and the destructuring see it:
  something that makes them throw, or a value whose \<^verbatim>\<open>question\<close> may be absent.
\<close>

datatype request_json = Unparsable | Parsed "question_payload option"

record request =
  req_method :: string
  req_authorization :: "string option"
  req_json :: request_json

text \<open>
  A mail as handed to \<^verbatim>\<open>resend.emails.send\<close>. Of the HTML only the interpolated
  values are kept, in the order of the template; the markup around them is constant.
\<close>

record notification_html =
  h_admin_name :: string
  h_department :: string
  h_title :: string
  h_excerpt :: string
  h_asked_by :: string

record email =
  em_from :: string
  em_to :: "string list"
  em_subject :: string
  em_html :: notification_html

datatype send_outcome = Sent | Thrown string

datatype query = Q_questions | Q_departments | Q_department_admins | Q_profiles | Q_author_profile

record env =
  env_db :: database
  getUser :: "string \<Rightarrow> uuid option"
  query_error :: "query \<Rightarrow> bool"
  resend_send :: "email \<Rightarrow> send_outcome"

text \<open>A response: the status and the JSON object of the body (none for the preflight).\<close>

record response =
  resp_status :: nat
  resp_body :: "(string \<times> string) list option"

definition json_response :: "nat \<Rightarrow> (string \<times> string) list \<Rightarrow> response" where
  "json_response st kvs = \<lparr>resp_status = st, resp_body = Some kvs\<rparr>"

text \<open>\<^verbatim>\<open>.single()\<close>: exactly one row, or an error.\<close>

fun single :: "'a list \<Rightarrow> 'a option" where
  "single [x] = Some x"
| "single xs = None"

text \<open>\<^verbatim>\<open>a || b\<close> on a nullable string: \<^verbatim>\<open>null\<close> and the empty string are falsy.\<close>

fun js_or :: "string option \<Rightarrow> string \<Rightarrow> string" where
  "js_or None b = b"
| "js_or (Some a) b = (if a = [] then b else a)"

text \<open>A number inside a template literal: its decimal digits.\<close>

definition digit :: "nat \<Rightarrow> char" where
  "digit d = ''0123456789'' ! d"

fun string_of_nat :: "nat \<Rightarrow> string" where
  "string_of_nat n =
     (if n < 10 then [digit n] else string_of_nat (n div 10) @ [digit (n mod 10)])"

declare string_of_nat.simps [simp del]

definition notification_email :: "department \<Rightarrow> question \<Rightarrow> string \<Rightarrow> profile \<Rightarrow> email" where
  "notification_email department' q authorName admin' =
     \<lparr>em_from = ''GetBlock Q&A <notifications@getblock.io>'',
      em_to = [p_email admin'],
      em_subject = ''New Question in '' @ d_name department' @ '' Department'',
      em_html = \<lparr>h_admin_name = js_or (p_full_name admin') ''Admin'',
                 h_department = d_name department',
                 h_title = q_title q,
                 h_excerpt = take 300 (q_content q) @ (if 300 < length (q_content q) then ''...'' else []),
                 h_asked_by = authorName\<rparr>\<rparr>"

text \<open>
  Lines 188 to 239: one send per profile, each in its own \<^verbatim>\<open>try\<close>, so that a send
  that throws yields \<^verbatim>\<open>success: false\<close> and the others still run; then the summary.
  What a send throws is an error object, whose message the handler reads; a send that
  returns counts as a success whatever it returns.
\<close>

definition send_all :: "env \<Rightarrow> email list \<Rightarrow> bool list" where
  "send_all e ms = map (\<lambda>m. case resend_send e m of Sent \<Rightarrow> True | Thrown msg \<Rightarrow> False) ms"

definition send_notifications ::
  "env \<Rightarrow> department \<Rightarrow> question \<Rightarrow> string \<Rightarrow> profile list \<Rightarrow> response \<times> email list" where
  "send_notifications e department' q authorName adminProfiles =
     (let ms = map (notification_email department' q authorName) adminProfiles;
          results = send_all e ms;
          successCount = length (filter (\<lambda>r. r) results)
      in (json_response 200
            [(''message'', ''Notifications sent to '' @ string_of_nat successCount @ ''/''
                @ string_of_nat (length results) @ '' admins'')],
          ms))"

definition internal_server_error :: "response \<times> email list" where
  "internal_server_error = (json_response 500 [(''error'', ''Internal server error'')], [])"

definition author_name :: "env \<Rightarrow> question \<Rightarrow> string" where
  "author_name e q =
     (case q_author_id q of
        None \<Rightarrow> ''Anonymous''
      | Some a \<Rightarrow>
          if q_is_anonymous q \<or> a = [] \<or> query_error e Q_author_profile then ''Anonymous''
          else (case single (filter (\<lambda>p. p_user_id p = a) (profiles (env_db e))) of
                  None \<Rightarrow> ''Anonymous''
                | Some authorProfile \<Rightarrow> js_or (p_full_name authorProfile) (p_email authorProfile)))"

text \<open>Lines 110 to 186, for the question read back from the store.\<close>

definition notify :: "env \<Rightarrow> question \<Rightarrow> response \<times> email list" where
  "notify e q =
     (case q_department_id q of
        None \<Rightarrow> (json_response 200 [(''message'', ''No department assigned, skipping'')], [])
      | Some d \<Rightarrow>
          if d = [] then (json_response 200 [(''message'', ''No department assigned, skipping'')], [])
          else if query_error e Q_departments then internal_server_error
          else (case single (filter (\<lambda>x. d_id x = d) (departments (env_db e))) of
            None \<Rightarrow> internal_server_error
          | Some department' \<Rightarrow>
              if query_error e Q_department_admins then internal_server_error
              else let departmentAdmins = filter (\<lambda>a. da_department_id a = d) (department_admins (env_db e))
              in if departmentAdmins = []
                 then (json_response 200 [(''message'', ''No admins for this department'')], [])
                 else let adminUserIds = map da_user_id departmentAdmins
                 in if query_error e Q_profiles then internal_server_error
                    else let adminProfiles = filter (\<lambda>p. p_user_id p \<in> set adminUserIds) (profiles (env_db e))
                    in if adminProfiles = []
                       then (json_response 200 [(''message'', ''No profiles for department admins'')], [])
                       else send_notifications e department' q (author_name e q) adminProfiles))"

text \<open>The handler: the response, and the mails handed to the transport, in order.\<close>

definition handler :: "env \<Rightarrow> request \<Rightarrow> response \<times> email list" where
  "handler e req =
     (if req_method req = ''OPTIONS'' then (\<lparr>resp_status = 200, resp_body = None\<rparr>, [])
      else case req_authorization req of
        None \<Rightarrow> (json_response 401 [(''error'', ''Authorization required'')], [])
      | Some authHeader \<Rightarrow>
          if authHeader = [] then (json_response 401 [(''error'', ''Authorization required'')], [])
          else (case getUser e authHeader of
            None \<Rightarrow> (json_response 401 [(''error'', ''Invalid authentication'')], [])
          | Some uid \<Rightarrow>
              (case req_json req of
                 Unparsable \<Rightarrow> internal_server_error
               | Parsed None \<Rightarrow> (json_response 400 [(''error'', ''Invalid request payload'')], [])
               | Parsed (Some question') \<Rightarrow>
                  (case qp_id question' of
                     None \<Rightarrow> (json_response 400 [(''error'', ''Invalid request payload'')], [])
                   | Some qid \<Rightarrow>
                       if qid = [] then (json_response 400 [(''error'', ''Invalid request payload'')], [])
                       else if query_error e Q_questions
                       then (json_response 404 [(''error'', ''Question not found'')], [])
                       else (case single (filter (\<lambda>r. q_id r = qid) (questions (env_db e))) of
                         None \<Rightarrow> (json_response 404 [(''error'', ''Question not found'')], [])
                       | Some questionData \<Rightarrow>
                           if q_author_id questionData \<noteq> Some uid
                           then (json_response 403
                                   [(''error'', ''Unauthorized - not the question author'')], [])
                           else notify e questionData)))))"


text \<open>The profiles that lines 134 to 159 resolve for a department.\<close>

definition resolved_admin_profiles :: "database \<Rightarrow> uuid \<Rightarrow> profile list" where
  "resolved_admin_profiles db d =
     filter (\<lambda>p. p_user_id p \<in> set (map da_user_id
               (filter (\<lambda>a. da_department_id a = d) (department_admins db))))
       (profiles db)"

section \<open>A small installation\<close>

text \<open>
  One department with two department admins, an administrator, two employees, one
  anonymous and one signed question, no vote yet. The theorems below are run on it.
\<close>

definition example_q1 :: question where
  "example_q1 =
     \<lparr>q_id = ''q1'', q_title = ''Parking'', q_content = ''Where can I park?'',
      q_department_id = Some ''d1'', q_is_anonymous = True, q_author_id = None,
      q_status = Some ''open'', upvotes = 0, downvotes = 0\<rparr>"

definition example_q2 :: question where
  "example_q2 =
     \<lparr>q_id = ''q2'', q_title = ''Builds'', q_content = ''Why is the build slow?'',
      q_department_id = Some ''d1'', q_is_anonymous = False, q_author_id = Some ''u1'',
      q_status = Some ''open'', upvotes = 0, downvotes = 0\<rparr>"

definition example_bob :: profile where
  "example_bob =
     \<lparr>p_user_id = ''a1'', p_email = ''bob@example.com'', p_full_name = Some ''Bob'',
      p_avatar_url = None, p_department_id = Some ''d1''\<rparr>"

definition example_carol :: profile where
  "example_carol =
     \<lparr>p_user_id = ''a2'', p_email = ''carol@example.com'', p_full_name = None,
      p_avatar_url = None, p_department_id = Some ''d1''\<rparr>"

definition example_db :: database where
  "example_db =
     \<lparr>auth_users = [''u1'', ''u2'', ''a1'', ''a2'', ''root''],
      departments = [\<lparr>d_id = ''d1'', d_name = ''Engineering''\<rparr>],
      profiles =
        [\<lparr>p_user_id = ''u1'', p_email = ''alice@example.com'', p_full_name = Some ''Alice'',
          p_avatar_url = None, p_department_id = None\<rparr>,
         \<lparr>p_user_id = ''u2'', p_email = ''dave@example.com'', p_full_name = None,
          p_avatar_url = None, p_department_id = None\<rparr>,
         example_bob, example_carol],
      user_roles =
        [\<lparr>ur_user_id = ''u1'', ur_role = Employee\<rparr>,
         \<lparr>ur_user_id = ''u2'', ur_role = Employee\<rparr>,
         \<lparr>ur_user_id = ''a1'', ur_role = Employee\<rparr>,
         \<lparr>ur_user_id = ''a1'', ur_role = Responder\<rparr>,
         \<lparr>ur_user_id = ''a2'', ur_role = Employee\<rparr>,
         \<lparr>ur_user_id = ''a2'', ur_role = Responder\<rparr>,
         \<lparr>ur_user_id = ''root'', ur_role = Employee\<rparr>,
         \<lparr>ur_user_id = ''root'', ur_role = Admin\<rparr>],
      questions = [example_q1, example_q2],
      answers = [],
      votes = [],
      department_admins =
        [\<lparr>da_user_id = ''a1'', da_department_id = ''d1''\<rparr>,
         \<lparr>da_user_id = ''a2'', da_department_id = ''d1''\<rparr>]\<rparr>"

definition example_vote_ops :: "vote_op list" where
  "example_vote_ops =
     [InsertVote \<lparr>v_question_id = ''q2'', v_user_id = ''u1'', v_vote_type = Up\<rparr>,
      InsertVote \<lparr>v_question_id = ''q2'', v_user_id = ''u2'', v_vote_type = Up\<rparr>,
      InsertVote \<lparr>v_question_id = ''q1'', v_user_id = ''u1'', v_vote_type = Down\<rparr>,
      InsertVote \<lparr>v_question_id = ''q2'', v_user_id = ''u1'', v_vote_type = Down\<rparr>,
      UpdateVote ''q2'' ''u1'' \<lparr>v_question_id = ''q2'', v_user_id = ''u1'', v_vote_type = Down\<rparr>,
      DeleteVote ''q2'' ''u2'']"

text \<open>The transport of the example: the mail to the second department admin throws.\<close>

definition example_env :: env where
  "example_env =
     \<lparr>env_db = example_db,
      getUser = (\<lambda>t. if t = ''Bearer u1'' then Some ''u1''
                      else if t = ''Bearer u2'' then Some ''u2'' else None),
      query_error = (\<lambda>q. False),
      resend_send = (\<lambda>m. if em_to m = [''carol@example.com''] then Thrown ''rate limit'' else Sent)\<rparr>"

definition example_request :: "string \<Rightarrow> uuid \<Rightarrow> request" where
  "example_request token qid =
     \<lparr>req_method = ''POST'', req_authorization = Some token,
      req_json = Parsed (Some \<lparr>qp_id = Some qid, qp_title = [], qp_content = [],
                   qp_department_id = None, qp_is_anonymous = False, qp_author_id = None\<rparr>)\<rparr>"

definition example_db_voted :: database where
  "example_db_voted =
     example_db\<lparr>votes := [\<lparr>v_question_id = ''q2'', v_user_id = ''u1'', v_vote_type = Up\<rparr>],
       questions := map (\<lambda>r. if q_id r = ''q2'' then r\<lparr>upvotes := 1\<rparr> else r) (questions example_db)\<rparr>"


lemmas example_defs =
  example_db_def example_q1_def example_q2_def example_bob_def example_carol_def

section \<open>Properties of the vote aggregation\<close>

lemma count_votes_append:
  "count_votes t qid (vs @ [v]) =
     count_votes t qid vs + (if v_question_id v = qid \<and> v_vote_type v = t then 1 else 0)"
  by (simp add: count_votes_def)

lemma count_votes_remove1:
  assumes "old \<in> set vs"
  shows "int (count_votes t qid (remove1 old vs)) =
     int (count_votes t qid vs) - (if v_question_id old = qid \<and> v_vote_type old = t then 1 else 0)"
proof (cases "v_question_id old = qid \<and> v_vote_type old = t")
  case True
  let ?f = "filter (\<lambda>v. v_question_id v = qid \<and> v_vote_type v = t) vs"
  from True assms have mem: "old \<in> set ?f" by simp
  then have pos: "0 < length ?f" by (rule length_pos_if_in_set)
  from mem have "length (remove1 old ?f) = length ?f - 1"
    by (simp add: length_remove1)
  with pos have "int (length (remove1 old ?f)) = int (length ?f) - 1"
    by (cases "length ?f") simp_all
  with True show ?thesis
    by (simp add: count_votes_def filter_remove1)
next
  case False
  then have "filter (\<lambda>v. v_question_id v = qid \<and> v_vote_type v = t) (remove1 old vs)
      = filter (\<lambda>v. v_question_id v = qid \<and> v_vote_type v = t) vs"
    by (induction vs) auto
  with False show ?thesis by (simp add: count_votes_def)
qed

lemma vote_at_Some:
  "vote_at qid uid vs = Some old \<Longrightarrow> old \<in> set vs \<and> v_question_id old = qid \<and> v_user_id old = uid"
  by (auto simp: vote_at_def find_Some_iff)

lemma add_upvotes_Inr:
  "add_upvotes d qid qs = Inr qs' \<Longrightarrow>
     qs' = map (\<lambda>r. if q_id r = qid then r\<lparr>upvotes := upvotes r + d\<rparr> else r) qs"
  by (simp add: add_upvotes_def split: if_splits)

lemma add_downvotes_Inr:
  "add_downvotes d qid qs = Inr qs' \<Longrightarrow>
     qs' = map (\<lambda>r. if q_id r = qid then r\<lparr>downvotes := downvotes r + d\<rparr> else r) qs"
  by (simp add: add_downvotes_def split: if_splits)

lemma ball_map_row:
  "\<forall>r \<in> set qs. P r \<Longrightarrow> (\<And>r. P r \<Longrightarrow> Q (f r)) \<Longrightarrow> \<forall>r \<in> set (map f qs). Q r"
  by auto

lemma row_insert_match:
  assumes "counters_match vs r"
  shows "v_vote_type new = Up \<Longrightarrow> counters_match (vs @ [new])
           (if q_id r = v_question_id new then r\<lparr>upvotes := upvotes r + 1\<rparr> else r)"
    and "v_vote_type new = Down \<Longrightarrow> counters_match (vs @ [new])
           (if q_id r = v_question_id new then r\<lparr>downvotes := downvotes r + 1\<rparr> else r)"
  using assms by (auto simp: counters_match_def count_votes_append)

lemma row_delete_match:
  assumes "counters_match vs r" and "old \<in> set vs"
  shows "v_vote_type old = Up \<Longrightarrow> counters_match (remove1 old vs)
           (if q_id r = v_question_id old then r\<lparr>upvotes := upvotes r + - 1\<rparr> else r)"
    and "v_vote_type old = Down \<Longrightarrow> counters_match (remove1 old vs)
           (if q_id r = v_question_id old then r\<lparr>downvotes := downvotes r + - 1\<rparr> else r)"
  using assms by (auto simp: counters_match_def count_votes_remove1)

lemma trigger_insert_match:
  assumes "update_question_votes (TG_INSERT new) qs = Inr qs'"
    and "\<forall>r \<in> set qs. counters_match vs r"
  shows "\<forall>r \<in> set qs'. counters_match (vs @ [new]) r"
proof (cases "v_vote_type new")
  case Up
  let ?f = "\<lambda>r. if q_id r = v_question_id new then r\<lparr>upvotes := upvotes r + 1\<rparr> else r"
  from assms(1) Up have eq: "qs' = map ?f qs"
    by (simp add: add_upvotes_Inr)
  have "\<forall>r \<in> set (map ?f qs). counters_match (vs @ [new]) r"
  proof (rule ball_map_row [OF assms(2)])
    fix r
    assume "counters_match vs r"
    then show "counters_match (vs @ [new]) (?f r)"
      using Up by (simp only: row_insert_match(1))
  qed
  then show ?thesis unfolding eq .
next
  case Down
  let ?f = "\<lambda>r. if q_id r = v_question_id new then r\<lparr>downvotes := downvotes r + 1\<rparr> else r"
  from assms(1) Down have eq: "qs' = map ?f qs"
    by (simp add: add_downvotes_Inr)
  have "\<forall>r \<in> set (map ?f qs). counters_match (vs @ [new]) r"
  proof (rule ball_map_row [OF assms(2)])
    fix r
    assume "counters_match vs r"
    then show "counters_match (vs @ [new]) (?f r)"
      using Down by (simp only: row_insert_match(2))
  qed
  then show ?thesis unfolding eq .
qed

lemma trigger_delete_match:
  assumes "update_question_votes (TG_DELETE old) qs = Inr qs'"
    and "\<forall>r \<in> set qs. counters_match vs r" and "old \<in> set vs"
  shows "\<forall>r \<in> set qs'. counters_match (remove1 old vs) r"
proof (cases "v_vote_type old")
  case Up
  let ?f = "\<lambda>r. if q_id r = v_question_id old then r\<lparr>upvotes := upvotes r + - 1\<rparr> else r"
  from assms(1) Up have eq: "qs' = map ?f qs"
    by (simp add: add_upvotes_Inr)
  have "\<forall>r \<in> set (map ?f qs). counters_match (remove1 old vs) r"
  proof (rule ball_map_row [OF assms(2)])
    fix r
    assume "counters_match vs r"
    then show "counters_match (remove1 old vs) (?f r)"
      using Up assms(3) by (simp only: row_delete_match(1))
  qed
  then show ?thesis unfolding eq .
next
  case Down
  let ?f = "\<lambda>r. if q_id r = v_question_id old then r\<lparr>downvotes := downvotes r + - 1\<rparr> else r"
  from assms(1) Down have eq: "qs' = map ?f qs"
    by (simp add: add_downvotes_Inr)
  have "\<forall>r \<in> set (map ?f qs). counters_match (remove1 old vs) r"
  proof (rule ball_map_row [OF assms(2)])
    fix r
    assume "counters_match vs r"
    then show "counters_match (remove1 old vs) (?f r)"
      using Down assms(3) by (simp only: row_delete_match(2))
  qed
  then show ?thesis unfolding eq .
qed

lemma trigger_update_match:
  assumes "update_question_votes (TG_UPDATE old new) qs = Inr qs'"
    and "\<forall>r \<in> set qs. counters_match vs r" and "old \<in> set vs"
  shows "\<forall>r \<in> set qs'. counters_match (remove1 old vs @ [new]) r"
proof -
  from assms(1) obtain qs1 where
    1: "update_question_votes (TG_DELETE old) qs = Inr qs1" and
    2: "update_question_votes (TG_INSERT new) qs1 = Inr qs'"
    by (auto split: sum.splits)
  from trigger_delete_match [OF 1 assms(2,3)] trigger_insert_match [OF 2] show ?thesis
    by blast
qed

lemma apply_vote_op_consistent:
  assumes "ledger_consistent db" and "apply_vote_op op db = Inr db'"
  shows "ledger_consistent db'"
proof (cases op)
  case (InsertVote new)
  with assms show ?thesis
    using trigger_insert_match [of new "questions db" _ "votes db"]
    by (auto simp: insert_vote_def ledger_consistent_def split: if_splits sum.splits)
next
  case (UpdateVote qid uid new)
  with assms show ?thesis
    using trigger_update_match [of _ new "questions db" _ "votes db"]
    by (auto simp: update_vote_def ledger_consistent_def
             split: if_splits sum.splits option.splits dest!: vote_at_Some)
next
  case (DeleteVote qid uid)
  with assms show ?thesis
    using trigger_delete_match [of _ "questions db" _ "votes db"]
    by (auto simp: delete_vote_def ledger_consistent_def
             split: sum.splits option.splits dest!: vote_at_Some)
qed

lemma run_vote_ops_consistent:
  "ledger_consistent db \<Longrightarrow> ledger_consistent (run_vote_ops ops db)"
proof (induction ops arbitrary: db)
  case Nil
  then show ?case by simp
next
  case (Cons op ops)
  then show ?case
    by (cases "apply_vote_op op db") (auto dest: apply_vote_op_consistent)
qed


text \<open>
  C1. Start with no vote and every counter at zero, and run any sequence of inserts,
  updates and deletes on the vote table: afterwards every question's \<open>upvotes\<close> is the
  number of its \<open>up\<close> rows and its \<open>downvotes\<close> the number of its \<open>down\<close> rows.
\<close>

theorem vote_counters_follow_ledger:
  assumes "votes db = []"
    and "\<forall>r \<in> set (questions db). upvotes r = 0 \<and> downvotes r = 0"
  shows "ledger_consistent (run_vote_ops ops db)"
proof -
  from assms have "ledger_consistent db"
    by (simp add: ledger_consistent_def counters_match_def count_votes_def)
  then show ?thesis by (rule run_vote_ops_consistent)
qed

theorem vote_counters_follow_ledger_witness:
  "votes example_db = []
   \<and> map (\<lambda>r. (upvotes r, downvotes r)) (questions example_db) = [(0, 0), (0, 0)]
   \<and> ledger_consistent (run_vote_ops example_vote_ops example_db)
   \<and> map (\<lambda>r. (q_id r, upvotes r, downvotes r)) (questions (run_vote_ops example_vote_ops example_db))
       = [(''q1'', 0, 1), (''q2'', 0, 1)]
   \<and> map v_user_id (votes (run_vote_ops example_vote_ops example_db)) = [''u1'', ''u1'']"
proof -
  have "votes example_db = []"
    and z: "\<forall>r \<in> set (questions example_db). upvotes r = 0 \<and> downvotes r = 0"
    by (simp_all add: example_defs)
  then have "ledger_consistent (run_vote_ops example_vote_ops example_db)"
    by (rule vote_counters_follow_ledger)
  moreover have "map (\<lambda>r. (q_id r, upvotes r, downvotes r))
      (questions (run_vote_ops example_vote_ops example_db)) = [(''q1'', 0, 1), (''q2'', 0, 1)]"
    by code_simp
  moreover have "map v_user_id (votes (run_vote_ops example_vote_ops example_db)) = [''u1'', ''u1'']"
    by code_simp
  ultimately show ?thesis by (simp add: example_defs)
qed

text \<open>The unique key of the vote table survives every statement.\<close>

lemma vote_at_None:
  "vote_at qid uid vs = None \<longleftrightarrow> (qid, uid) \<notin> set (map (\<lambda>v. (v_question_id v, v_user_id v)) vs)"
  by (auto simp: vote_at_def find_None_iff)

lemma distinct_keys_remove1:
  assumes "distinct (map f xs)"
  shows "distinct (map f (remove1 x xs))"
proof -
  from assms have "distinct xs" and "inj_on f (set xs)" by (simp_all add: distinct_map)
  then have "distinct (remove1 x xs)" and "inj_on f (set (remove1 x xs))"
    by (auto intro: inj_on_diff)
  then show ?thesis by (simp add: distinct_map)
qed

lemma apply_vote_op_unique:
  assumes "votes_unique db" and "apply_vote_op op db = Inr db'"
  shows "votes_unique db'"
proof (cases op)
  case (InsertVote new)
  with assms show ?thesis
    by (auto simp: insert_vote_def votes_unique_def vote_at_None split: if_splits sum.splits)
next
  case (UpdateVote qid uid new)
  with assms show ?thesis
    by (auto simp: update_vote_def votes_unique_def vote_at_None distinct_keys_remove1
             simp del: update_question_votes.simps
             split: if_splits sum.splits option.splits)
next
  case (DeleteVote qid uid)
  with assms show ?thesis
    by (auto simp: delete_vote_def votes_unique_def distinct_keys_remove1
             simp del: update_question_votes.simps
             split: sum.splits option.splits)
qed

lemma run_vote_ops_unique:
  "votes_unique db \<Longrightarrow> votes_unique (run_vote_ops ops db)"
proof (induction ops arbitrary: db)
  case Nil
  then show ?case by simp
next
  case (Cons op ops)
  then show ?case
    by (cases "apply_vote_op op db") (auto dest: apply_vote_op_unique)
qed

lemma vote_at_remove1_None:
  assumes "distinct (map (\<lambda>v. (v_question_id v, v_user_id v)) vs)"
    and "vote_at qid uid vs = Some old"
  shows "vote_at qid uid (remove1 old vs) = None"
proof -
  from assms(2) have old: "old \<in> set vs" "v_question_id old = qid" "v_user_id old = uid"
    by (simp_all add: vote_at_Some)
  from assms(1) have inj: "inj_on (\<lambda>v. (v_question_id v, v_user_id v)) (set vs)" and d: "distinct vs"
    by (simp_all add: distinct_map)
  have "\<not> (v_question_id v = qid \<and> v_user_id v = uid)" if "v \<in> set (remove1 old vs)" for v
  proof
    assume k: "v_question_id v = qid \<and> v_user_id v = uid"
    from that d have "v \<in> set vs" "v \<noteq> old" by simp_all
    with inj old k show False by (auto dest: inj_onD)
  qed
  then show ?thesis by (auto simp: vote_at_def find_None_iff)
qed

lemma trigger_up_to_down:
  assumes "v_vote_type old = Up" and "v_vote_type new = Down"
    and "v_question_id old = qid" and "v_question_id new = qid"
  shows "update_question_votes (TG_UPDATE old new) qs =
     (if \<exists>r \<in> set qs. q_id r = qid \<and> (\<not> int4_ok (upvotes r - 1) \<or> \<not> int4_ok (downvotes r + 1))
      then Inl numeric_value_out_of_range
      else Inr (map (\<lambda>r. if q_id r = qid
                  then r\<lparr>upvotes := upvotes r - 1, downvotes := downvotes r + 1\<rparr> else r) qs))"
proof (cases "\<exists>r \<in> set qs. q_id r = qid \<and> \<not> int4_ok (upvotes r - 1)")
  case True
  with assms show ?thesis by (auto simp: add_upvotes_def)
next
  case False
  let ?f = "\<lambda>r. if q_id r = qid then r\<lparr>upvotes := upvotes r + - 1\<rparr> else r"
  from False have 1: "add_upvotes (- 1) qid qs = Inr (map ?f qs)"
    by (simp add: add_upvotes_def)
  have 2: "(\<exists>r \<in> set (map ?f qs). q_id r = qid \<and> \<not> int4_ok (downvotes r + 1))
      \<longleftrightarrow> (\<exists>r \<in> set qs. q_id r = qid \<and> \<not> int4_ok (downvotes r + 1))"
    by (induction qs) auto
  have 3: "map (\<lambda>r. if q_id r = qid then r\<lparr>downvotes := downvotes r + 1\<rparr> else r) (map ?f qs)
      = map (\<lambda>r. if q_id r = qid
                  then r\<lparr>upvotes := upvotes r - 1, downvotes := downvotes r + 1\<rparr> else r) qs"
    by (induction qs) auto
  from False assms 1 show ?thesis
    by (auto simp add: add_downvotes_def 2 3 simp del: set_map map_map)
qed

text \<open>
  C2. Changing an existing vote from \<open>up\<close> to \<open>down\<close> is one statement whose trigger
  makes both updates: either it raises (a counter would leave the range of
  \<^verbatim>\<open>INTEGER\<close>) and nothing changes, or the vote is changed and the question's
  counters move by exactly \<open>- 1\<close> up and \<open>+ 1\<close> down, every other question as before. The
  state between the trigger's two updates is no state of the database.
\<close>

theorem vote_change_up_to_down:
  assumes "votes_unique db"
    and "vote_at qid uid (votes db) = Some old"
    and "v_vote_type old = Up"
  shows "update_vote qid uid (old\<lparr>v_vote_type := Down\<rparr>) db =
     (if \<exists>r \<in> set (questions db). q_id r = qid
           \<and> (\<not> int4_ok (upvotes r - 1) \<or> \<not> int4_ok (downvotes r + 1))
      then Inl numeric_value_out_of_range
      else Inr (db\<lparr>votes := remove1 old (votes db) @ [old\<lparr>v_vote_type := Down\<rparr>],
                   questions := map (\<lambda>r. if q_id r = qid
                      then r\<lparr>upvotes := upvotes r - 1, downvotes := downvotes r + 1\<rparr> else r)
                      (questions db)\<rparr>))"
proof -
  from assms(2) have old: "v_question_id old = qid" "v_user_id old = uid"
    by (simp_all add: vote_at_Some)
  from assms(1,2) have free: "vote_at qid uid (remove1 old (votes db)) = None"
    unfolding votes_unique_def by (rule vote_at_remove1_None)
  have trig: "update_question_votes (TG_UPDATE old (old\<lparr>v_vote_type := Down\<rparr>)) (questions db) =
     (if \<exists>r \<in> set (questions db). q_id r = qid
           \<and> (\<not> int4_ok (upvotes r - 1) \<or> \<not> int4_ok (downvotes r + 1))
      then Inl numeric_value_out_of_range
      else Inr (map (\<lambda>r. if q_id r = qid
                  then r\<lparr>upvotes := upvotes r - 1, downvotes := downvotes r + 1\<rparr> else r)
                  (questions db)))"
    using assms(3) old by (intro trigger_up_to_down) simp_all
  show ?thesis
    unfolding update_vote_def using assms(2) old free
    by (simp add: trig del: update_question_votes.simps)
qed


theorem vote_change_up_to_down_witness:
  "votes_unique example_db_voted
   \<and> vote_at ''q2'' ''u1'' (votes example_db_voted)
       = Some \<lparr>v_question_id = ''q2'', v_user_id = ''u1'', v_vote_type = Up\<rparr>
   \<and> map (\<lambda>r. (q_id r, upvotes r, downvotes r)) (questions example_db_voted)
       = [(''q1'', 0, 0), (''q2'', 1, 0)]
   \<and> update_vote ''q2'' ''u1'' \<lparr>v_question_id = ''q2'', v_user_id = ''u1'', v_vote_type = Down\<rparr>
        example_db_voted
       = Inr (example_db\<lparr>
           votes := [\<lparr>v_question_id = ''q2'', v_user_id = ''u1'', v_vote_type = Down\<rparr>],
           questions := map (\<lambda>r. if q_id r = ''q2'' then r\<lparr>downvotes := 1\<rparr> else r)
                          (questions example_db)\<rparr>)"
  using vote_change_up_to_down [of example_db_voted "''q2''" "''u1''"
      "\<lparr>v_question_id = ''q2'', v_user_id = ''u1'', v_vote_type = Up\<rparr>"]
  by (simp add: example_db_voted_def example_defs votes_unique_def vote_at_def int4_ok_def)

section \<open>Properties of the policies\<close>

lemma questions_policies_final:
  "map pol_name questions_policies =
     [''Questions are viewable by authenticated users'', ''Admins can update questions'',
      ''Admins can delete questions'', ''Authenticated users can create questions'']"
  by (simp add: questions_policies_def migrate_def questions_ddl_def)

lemma sql_eq_Some [simp]: "sql_eq (Some x) (Some y) = Some (x = y)"
  and sql_eq_None [simp]: "sql_eq None b = None" "sql_eq a None = None"
  by (simp_all add: sql_eq_def split: option.splits)

lemma sql_and_true [simp]: "sql_and a b = Some True \<longleftrightarrow> a = Some True \<and> b = Some True"
  by (cases "(a, b)" rule: sql_and.cases) simp_all

lemma sql_or_true [simp]: "sql_or a b = Some True \<longleftrightarrow> a = Some True \<or> b = Some True"
  by (cases "(a, b)" rule: sql_or.cases) auto

lemma rls_insert_question:
  "rls_permits questions_policies db (User u) FOR_INSERT r =
     ((q_is_anonymous r \<and> q_author_id r = None) \<or> (\<not> q_is_anonymous r \<and> q_author_id r = Some u))"
  by (cases "q_author_id r"; cases "q_is_anonymous r")
     (auto simp add: questions_policies_def migrate_def questions_ddl_def rls_permits_def
       policy_applies_def sql_is_null_def)

lemma rls_insert_question_visitor:
  "rls_permits questions_policies db Visitor FOR_INSERT r = False"
  by (simp add: questions_policies_def migrate_def questions_ddl_def rls_permits_def
       policy_applies_def)

lemma rls_insert_answer:
  "rls_permits answers_policies db (User u) FOR_INSERT r =
     (is_admin_or_responder db (Some u) \<and> a_author_id r = Some u)"
  by (cases "a_author_id r"; cases "is_admin_or_responder db (Some u)")
     (auto simp add: answers_policies_def migrate_def answers_ddl_def rls_permits_def
       policy_applies_def)

lemma rls_select_profile:
  "rls_permits profiles_policies db (User u) FOR_SELECT r = True"
  by (simp add: profiles_policies_def migrate_def profiles_ddl_def rls_permits_def
       policy_applies_def)

lemma rls_select_profile_visitor:
  "rls_permits profiles_policies db Visitor FOR_SELECT r = False"
  by (simp add: profiles_policies_def migrate_def profiles_ddl_def rls_permits_def
       policy_applies_def has_role_def)

lemma rls_delete_user_role:
  "rls_permits user_roles_policies db c FOR_DELETE r = has_role db (auth_uid c) Admin"
  by (cases c)
   (auto simp add: user_roles_policies_def migrate_def user_roles_ddl_def rls_permits_def
       policy_applies_def has_role_def)

lemma rls_select_user_role:
  "rls_permits user_roles_policies db (User u) FOR_SELECT r = (ur_user_id r = u \<or> has_role db (Some u) Admin)"
  by (cases "has_role db (Some u) Admin")
   (auto simp add: user_roles_policies_def migrate_def user_roles_ddl_def rls_permits_def
       policy_applies_def)


lemma is_admin_or_responder_iff:
  "is_admin_or_responder db uid \<longleftrightarrow> has_role db uid Admin \<or> has_role db uid Responder"
  by (auto simp: is_admin_or_responder_def has_role_def)

text \<open>
  C3. For a signed-in caller, a question flagged anonymous with an author is rejected, and
  one not flagged anonymous whose author is not the caller (or is null) is rejected: by
  the policy, or before the policy is reached when a counter of the row does not fit its
  column. In the two remaining shapes the policy lets the row through to the table's
  constraints, and a row that meets them is stored.
\<close>

theorem create_question_gate:
  "(q_is_anonymous new \<and> q_author_id new \<noteq> None
      \<longrightarrow> insert_question new (User u) db =
            Inl (if int4_ok (upvotes new) \<and> int4_ok (downvotes new)
                then insufficient_privilege else numeric_value_out_of_range))
   \<and> (\<not> q_is_anonymous new \<and> q_author_id new \<noteq> Some u
      \<longrightarrow> insert_question new (User u) db =
            Inl (if int4_ok (upvotes new) \<and> int4_ok (downvotes new)
                then insufficient_privilege else numeric_value_out_of_range))
   \<and> ((q_is_anonymous new \<and> q_author_id new = None) \<or> (\<not> q_is_anonymous new \<and> q_author_id new = Some u)
      \<longrightarrow> insert_question new (User u) db =
            (if int4_ok (upvotes new) \<and> int4_ok (downvotes new)
             then store_question new db else Inl numeric_value_out_of_range)
        \<and> (length (q_title new) \<le> 500 \<and> length (q_content new) \<le> 10000
             \<and> q_status new \<in> {None, Some ''open'', Some ''answered'', Some ''closed''}
             \<and> int4_ok (upvotes new) \<and> int4_ok (downvotes new)
             \<and> \<not> question_exists (q_id new) db
             \<and> (q_department_id new = None
                  \<or> (\<exists>x \<in> set (departments db). Some (d_id x) = q_department_id new))
             \<and> (q_author_id new = None
                  \<or> (\<exists>a \<in> set (auth_users db). Some a = q_author_id new))
           \<longrightarrow> insert_question new (User u) db = Inr (db\<lparr>questions := questions db @ [new]\<rparr>)))"
proof (intro conjI impI)
  assume "q_is_anonymous new \<and> q_author_id new \<noteq> None"
  then show "insert_question new (User u) db =
            Inl (if int4_ok (upvotes new) \<and> int4_ok (downvotes new)
                then insufficient_privilege else numeric_value_out_of_range)"
    by (simp add: insert_question_def rls_insert_question)
next
  assume "\<not> q_is_anonymous new \<and> q_author_id new \<noteq> Some u"
  then show "insert_question new (User u) db =
            Inl (if int4_ok (upvotes new) \<and> int4_ok (downvotes new)
                then insufficient_privilege else numeric_value_out_of_range)"
    by (simp add: insert_question_def rls_insert_question)
next
  assume ok: "(q_is_anonymous new \<and> q_author_id new = None) \<or> (\<not> q_is_anonymous new \<and> q_author_id new = Some u)"
  then show gate: "insert_question new (User u) db =
            (if int4_ok (upvotes new) \<and> int4_ok (downvotes new)
             then store_question new db else Inl numeric_value_out_of_range)"
    by (simp add: insert_question_def rls_insert_question)
  assume valid: "length (q_title new) \<le> 500 \<and> length (q_content new) \<le> 10000
             \<and> q_status new \<in> {None, Some ''open'', Some ''answered'', Some ''closed''}
             \<and> int4_ok (upvotes new) \<and> int4_ok (downvotes new)
             \<and> \<not> question_exists (q_id new) db
             \<and> (q_department_id new = None
                  \<or> (\<exists>x \<in> set (departments db). Some (d_id x) = q_department_id new))
             \<and> (q_author_id new = None
                  \<or> (\<exists>a \<in> set (auth_users db). Some a = q_author_id new))"
  then have "store_question new db = Inr (db\<lparr>questions := questions db @ [new]\<rparr>)"
    by (auto simp: store_question_def user_exists_def list_ex_iff split: option.splits)
  with gate valid show "insert_question new (User u) db = Inr (db\<lparr>questions := questions db @ [new]\<rparr>)"
    by simp
qed

theorem create_question_gate_witness:
  "insert_question
     \<lparr>q_id = ''q3'', q_title = ''Lunch'', q_content = ''Is there a canteen?'',
      q_department_id = None, q_is_anonymous = True, q_author_id = Some ''u2'',
      q_status = None, upvotes = 0, downvotes = 0\<rparr> (User ''u2'') example_db
     = Inl insufficient_privilege
   \<and> insert_question
     \<lparr>q_id = ''q3'', q_title = ''Lunch'', q_content = ''Is there a canteen?'',
      q_department_id = None, q_is_anonymous = False, q_author_id = Some ''u1'',
      q_status = None, upvotes = 0, downvotes = 0\<rparr> (User ''u2'') example_db
     = Inl insufficient_privilege
   \<and> insert_question
     \<lparr>q_id = ''q3'', q_title = ''Lunch'', q_content = ''Is there a canteen?'',
      q_department_id = None, q_is_anonymous = False, q_author_id = None,
      q_status = None, upvotes = 0, downvotes = 0\<rparr> (User ''u2'') example_db
     = Inl insufficient_privilege
   \<and> insert_question
     \<lparr>q_id = ''q3'', q_title = ''Lunch'', q_content = ''Is there a canteen?'',
      q_department_id = Some ''d1'', q_is_anonymous = True, q_author_id = None,
      q_status = None, upvotes = 0, downvotes = 0\<rparr> (User ''u2'') example_db
     = Inr (example_db\<lparr>questions := questions example_db @
         [\<lparr>q_id = ''q3'', q_title = ''Lunch'', q_content = ''Is there a canteen?'',
      q_department_id = Some ''d1'', q_is_anonymous = True, q_author_id = None,
      q_status = None, upvotes = 0, downvotes = 0\<rparr>]\<rparr>)
   \<and> insert_question
     \<lparr>q_id = ''q3'', q_title = ''Lunch'', q_content = ''Is there a canteen?'',
      q_department_id = None, q_is_anonymous = False, q_author_id = Some ''u2'',
      q_status = None, upvotes = 0, downvotes = 0\<rparr> (User ''u2'') example_db
     = Inr (example_db\<lparr>questions := questions example_db @
         [\<lparr>q_id = ''q3'', q_title = ''Lunch'', q_content = ''Is there a canteen?'',
      q_department_id = None, q_is_anonymous = False, q_author_id = Some ''u2'',
      q_status = None, upvotes = 0, downvotes = 0\<rparr>]\<rparr>)
   \<and> insert_question
     \<lparr>q_id = ''q3'', q_title = ''Lunch'', q_content = ''Is there a canteen?'',
      q_department_id = None, q_is_anonymous = True, q_author_id = Some ''u2'',
      q_status = None, upvotes = 2147483648, downvotes = 0\<rparr> (User ''u2'') example_db
     = Inl numeric_value_out_of_range"
proof -
  let ?r1 = "\<lparr>q_id = ''q3'', q_title = ''Lunch'', q_content = ''Is there a canteen?'',
      q_department_id = None, q_is_anonymous = True, q_author_id = Some ''u2'',
      q_status = None, upvotes = 0, downvotes = 0\<rparr>"
  let ?r2 = "\<lparr>q_id = ''q3'', q_title = ''Lunch'', q_content = ''Is there a canteen?'',
      q_department_id = None, q_is_anonymous = False, q_author_id = Some ''u1'',
      q_status = None, upvotes = 0, downvotes = 0\<rparr>"
  let ?r3 = "\<lparr>q_id = ''q3'', q_title = ''Lunch'', q_content = ''Is there a canteen?'',
      q_department_id = None, q_is_anonymous = False, q_author_id = None,
      q_status = None, upvotes = 0, downvotes = 0\<rparr>"
  let ?r4 = "\<lparr>q_id = ''q3'', q_title = ''Lunch'', q_content = ''Is there a canteen?'',
      q_department_id = Some ''d1'', q_is_anonymous = True, q_author_id = None,
      q_status = None, upvotes = 0, downvotes = 0\<rparr>"
  let ?r5 = "\<lparr>q_id = ''q3'', q_title = ''Lunch'', q_content = ''Is there a canteen?'',
      q_department_id = None, q_is_anonymous = False, q_author_id = Some ''u2'',
      q_status = None, upvotes = 0, downvotes = 0\<rparr>"
  let ?r6 = "\<lparr>q_id = ''q3'', q_title = ''Lunch'', q_content = ''Is there a canteen?'',
      q_department_id = None, q_is_anonymous = True, q_author_id = Some ''u2'',
      q_status = None, upvotes = 2147483648, downvotes = 0\<rparr>"
  have r1: "insert_question ?r1 (User ''u2'') example_db = Inl insufficient_privilege"
    using create_question_gate [of ?r1 "''u2''" example_db] by (simp add: int4_ok_def)
  have r2: "insert_question ?r2 (User ''u2'') example_db = Inl insufficient_privilege"
    using create_question_gate [of ?r2 "''u2''" example_db] by (simp add: int4_ok_def)
  have r3: "insert_question ?r3 (User ''u2'') example_db = Inl insufficient_privilege"
    using create_question_gate [of ?r3 "''u2''" example_db] by (simp add: int4_ok_def)
  have r6: "insert_question ?r6 (User ''u2'') example_db = Inl numeric_value_out_of_range"
    using create_question_gate [of ?r6 "''u2''" example_db] by (simp add: int4_ok_def)
  have "(q_is_anonymous ?r4 \<and> q_author_id ?r4 = None)
      \<or> (\<not> q_is_anonymous ?r4 \<and> q_author_id ?r4 = Some ''u2'')"
    by simp
  moreover have "length (q_title ?r4) \<le> 500 \<and> length (q_content ?r4) \<le> 10000
             \<and> q_status ?r4 \<in> {None, Some ''open'', Some ''answered'', Some ''closed''}
             \<and> int4_ok (upvotes ?r4) \<and> int4_ok (downvotes ?r4)
             \<and> \<not> question_exists (q_id ?r4) example_db
             \<and> (q_department_id ?r4 = None
                  \<or> (\<exists>x \<in> set (departments example_db). Some (d_id x) = q_department_id ?r4))
             \<and> (q_author_id ?r4 = None
                  \<or> (\<exists>a \<in> set (auth_users example_db). Some a = q_author_id ?r4))"
    by (simp add: question_exists_def int4_ok_def example_defs)
  ultimately have r4: "insert_question ?r4 (User ''u2'') example_db
      = Inr (example_db\<lparr>questions := questions example_db @ [?r4]\<rparr>)"
    using create_question_gate [of ?r4 "''u2''" example_db] by blast
  have "(q_is_anonymous ?r5 \<and> q_author_id ?r5 = None)
      \<or> (\<not> q_is_anonymous ?r5 \<and> q_author_id ?r5 = Some ''u2'')"
    by simp
  moreover have "length (q_title ?r5) \<le> 500 \<and> length (q_content ?r5) \<le> 10000
             \<and> q_status ?r5 \<in> {None, Some ''open'', Some ''answered'', Some ''closed''}
             \<and> int4_ok (upvotes ?r5) \<and> int4_ok (downvotes ?r5)
             \<and> \<not> question_exists (q_id ?r5) example_db
             \<and> (q_department_id ?r5 = None
                  \<or> (\<exists>x \<in> set (departments example_db). Some (d_id x) = q_department_id ?r5))
             \<and> (q_author_id ?r5 = None
                  \<or> (\<exists>a \<in> set (auth_users example_db). Some a = q_author_id ?r5))"
    by (simp add: question_exists_def int4_ok_def example_defs)
  ultimately have r5: "insert_question ?r5 (User ''u2'') example_db
      = Inr (example_db\<lparr>questions := questions example_db @ [?r5]\<rparr>)"
    using create_question_gate [of ?r5 "''u2''" example_db] by blast
  from r1 r2 r3 r4 r5 r6 show ?thesis by (intro conjI)
qed

text \<open>
  A caller whose token is still valid but whose row in \<^verbatim>\<open>auth.users\<close> is gone passes
  the policy with a signed question and fails on the reference of \<^verbatim>\<open>author_id\<close>; a
  counter that does not fit its column is refused before the constraints are looked at.
\<close>

lemma insert_question_departed_author:
  "insert_question
     \<lparr>q_id = ''q3'', q_title = ''Lunch'', q_content = ''Is there a canteen?'',
      q_department_id = None, q_is_anonymous = False, q_author_id = Some ''zz'',
      q_status = None, upvotes = 0, downvotes = 0\<rparr> (User ''zz'') example_db
     = Inl foreign_key_violation"
  by code_simp

lemma insert_question_counter_first:
  "insert_question
     \<lparr>q_id = ''q3'', q_title = replicate 501 CHR ''x'', q_content = ''Is there a canteen?'',
      q_department_id = None, q_is_anonymous = True, q_author_id = None,
      q_status = None, upvotes = 2147483648, downvotes = 0\<rparr> (User ''u2'') example_db
     = Inl numeric_value_out_of_range"
  by (simp add: insert_question_def int4_ok_def)

lemma update_question_status_answers [simp]:
  "answers (update_question_status qid s c db) = answers db"
  by (simp add: update_question_status_def)

lemma insert_answer_Inr:
  assumes "insert_answer new (User u) db = Inr dbNew"
  shows "is_admin_or_responder db (Some u) \<and> a_author_id new = Some u
     \<and> dbNew = db\<lparr>answers := answers db @ [new]\<rparr>"
  using assms
  by (auto simp: insert_answer_def rls_insert_answer store_answer_def split: if_splits)

lemma handleSubmitAnswer_posted:
  assumes "handleSubmitAnswer ctx newAnswer id' db = (dbNew, Some ''Answer posted successfully!'')"
  shows "\<exists>u qid. user ctx = Some u \<and> id' = Some qid \<and> is_admin_or_responder db (Some u)
     \<and> answers dbNew = answers db @
          [\<lparr>a_question_id = qid, a_content = trim newAnswer,
            a_author_id = Some u, a_is_official = isResponder ctx\<rparr>]"
  using assms
  by (auto simp: handleSubmitAnswer_def split: option.splits if_splits sum.splits
           dest!: insert_answer_Inr)

text \<open>Right after \<^verbatim>\<open>fetchProfile\<close> the flags of the client agree with the store.\<close>

lemma own_roles_visible:
  "filter (\<lambda>r. ur_user_id r = u \<and> rls_permits user_roles_policies db (User u) FOR_SELECT r) rs
     = filter (\<lambda>r. ur_user_id r = u) rs"
  by (rule filter_cong) (auto simp: rls_select_user_role)

lemma has_role_mem:
  "has_role db (Some u) role' \<longleftrightarrow> role' \<in> set (map ur_role (filter (\<lambda>r. ur_user_id r = u) (user_roles db)))"
  by (force simp: has_role_def)

lemma fetchProfile_flags:
  assumes "user ctx = Some u"
  shows "isResponder (fetchProfile u db ctx)
       = (has_role db (Some u) Responder \<or> has_role db (Some u) Admin)
     \<and> isAdmin (fetchProfile u db ctx) = has_role db (Some u) Admin"
  using assms
  by (simp add: fetchProfile_def client_caller_def own_roles_visible has_role_mem Let_def
           del: set_map set_filter)

text \<open>
  C4, as the code has it. An identity with neither the responder nor the admin role cannot
  create an answer. Whoever creates one held one of the two roles at that moment and is
  its author; so \<open>official\<close> can only be true on an answer of a role holder. An answer
  posted through the page's answer form has \<open>official = true\<close>: the form is shown only
  when the client's flag \<open>isResponder\<close> is set, and that flag is what is stored. The
  policy itself does not look at \<open>official\<close>.
\<close>

theorem create_answer_gate:
  "(\<not> has_role db (Some u) Responder \<and> \<not> has_role db (Some u) Admin
      \<longrightarrow> insert_answer new (User u) db = Inl insufficient_privilege)
   \<and> (insert_answer new (User u) db = Inr dbNew
      \<longrightarrow> (has_role db (Some u) Responder \<or> has_role db (Some u) Admin)
        \<and> a_author_id new = Some u \<and> answers dbNew = answers db @ [new])
   \<and> (post_answer_button ctx isSubmitting newAnswer id' db = (dbPosted, Some ''Answer posted successfully!'')
      \<longrightarrow> (\<exists>w qid. user ctx = Some w \<and> id' = Some qid
            \<and> (has_role db (Some w) Responder \<or> has_role db (Some w) Admin)
            \<and> answers dbPosted = answers db @
                 [\<lparr>a_question_id = qid, a_content = trim newAnswer,
                   a_author_id = Some w, a_is_official = True\<rparr>]))"
proof (intro conjI impI)
  assume "\<not> has_role db (Some u) Responder \<and> \<not> has_role db (Some u) Admin"
  then show "insert_answer new (User u) db = Inl insufficient_privilege"
    by (simp add: insert_answer_def rls_insert_answer is_admin_or_responder_iff)
next
  assume a: "insert_answer new (User u) db = Inr dbNew"
  from insert_answer_Inr [OF a]
  show "has_role db (Some u) Responder \<or> has_role db (Some u) Admin"
    and "a_author_id new = Some u" and "answers dbNew = answers db @ [new]"
    by (auto simp: is_admin_or_responder_iff)
next
  assume p: "post_answer_button ctx isSubmitting newAnswer id' db = (dbPosted, Some ''Answer posted successfully!'')"
  then have shown: "isResponder ctx"
    and h: "handleSubmitAnswer ctx newAnswer id' db = (dbPosted, Some ''Answer posted successfully!'')"
    by (auto simp: post_answer_button_def split: if_splits)
  from handleSubmitAnswer_posted [OF h] shown
  show "\<exists>w qid. user ctx = Some w \<and> id' = Some qid
            \<and> (has_role db (Some w) Responder \<or> has_role db (Some w) Admin)
            \<and> answers dbPosted = answers db @
                 [\<lparr>a_question_id = qid, a_content = trim newAnswer,
                   a_author_id = Some w, a_is_official = True\<rparr>]"
    by (auto simp: is_admin_or_responder_iff)
qed

theorem create_answer_gate_witness:
  "insert_answer \<lparr>a_question_id = ''q1'', a_content = ''Level 2'',
       a_author_id = Some ''u2'', a_is_official = True\<rparr> (User ''u2'') example_db
     = Inl insufficient_privilege
   \<and> answers (fst (post_answer_button \<lparr>user = Some ''a1'', isAdmin = False, isResponder = True\<rparr>
         False '' Level 2 '' (Some ''q1'') example_db))
     = [\<lparr>a_question_id = ''q1'', a_content = ''Level 2'',
         a_author_id = Some ''a1'', a_is_official = True\<rparr>]"
proof -
  let ?ctx = "\<lparr>user = Some ''a1'', isAdmin = False, isResponder = True\<rparr>"
  let ?res = "post_answer_button ?ctx False '' Level 2 '' (Some ''q1'') example_db"
  let ?new = "\<lparr>a_question_id = ''q1'', a_content = ''Level 2'',
       a_author_id = Some ''u2'', a_is_official = True\<rparr>"
  have "\<not> has_role example_db (Some ''u2'') Responder \<and> \<not> has_role example_db (Some ''u2'') Admin"
    by (simp add: has_role_def example_defs)
  with create_answer_gate [where db = example_db and u = "''u2''" and new = ?new]
  have 1: "insert_answer ?new (User ''u2'') example_db = Inl insufficient_privilege"
    by blast
  have "?res = (fst ?res, Some ''Answer posted successfully!'')"
    by code_simp
  with create_answer_gate [where db = example_db and ctx = ?ctx and isSubmitting = False
      and newAnswer = "'' Level 2 ''" and id' = "Some ''q1''" and dbPosted = "fst ?res"]
  have "\<exists>w qid. user ?ctx = Some w \<and> Some ''q1'' = Some qid
          \<and> (has_role example_db (Some w) Responder \<or> has_role example_db (Some w) Admin)
          \<and> answers (fst ?res) = answers example_db @
               [\<lparr>a_question_id = qid, a_content = trim '' Level 2 '',
                 a_author_id = Some w, a_is_official = True\<rparr>]"
    by blast
  then have 2: "answers (fst ?res) = [\<lparr>a_question_id = ''q1'', a_content = ''Level 2'',
         a_author_id = Some ''a1'', a_is_official = True\<rparr>]"
    by (auto simp: example_defs trim_def is_space_def)
  from 1 2 show ?thesis by (intro conjI)
qed

text \<open>
  The claim as the specification has it fails: a responder who inserts an answer with
  \<open>official = false\<close> passes the policy, and \<^verbatim>\<open>handleSubmitAnswer\<close> stores the
  client's flag even when it lags behind the roles of the store.
\<close>

theorem official_flag_left_to_client:
  "has_role example_db (Some ''a1'') Responder
   \<and> insert_answer \<lparr>a_question_id = ''q1'', a_content = ''Level 2'',
         a_author_id = Some ''a1'', a_is_official = False\<rparr> (User ''a1'') example_db
       = Inr (example_db\<lparr>answers :=
           [\<lparr>a_question_id = ''q1'', a_content = ''Level 2'',
             a_author_id = Some ''a1'', a_is_official = False\<rparr>]\<rparr>)
   \<and> handleSubmitAnswer \<lparr>user = Some ''a1'', isAdmin = False, isResponder = False\<rparr>
         ''Level 2'' (Some ''q1'') example_db
       = (example_db\<lparr>answers :=
           [\<lparr>a_question_id = ''q1'', a_content = ''Level 2'',
             a_author_id = Some ''a1'', a_is_official = False\<rparr>]\<rparr>,
          Some ''Answer posted successfully!'')"
  by code_simp

lemma delete_user_role_not_admin:
  "\<not> has_role db (auth_uid c) Admin \<Longrightarrow> delete_user_role u role' c db = db"
  by (simp add: delete_user_role_def rls_delete_user_role)

lemma delete_user_role_keeps_other:
  "role' \<noteq> r \<Longrightarrow> filter (\<lambda>x. ur_role x = r) (user_roles (delete_user_role u role' c db))
     = filter (\<lambda>x. ur_role x = r) (user_roles db)"
  by (auto simp: delete_user_role_def intro: filter_cong)

text \<open>
  C5, as the code has it. \<^verbatim>\<open>handleRemoveRole\<close> refuses the role \<open>employee\<close> for
  every user and every acting identity, and whatever role it is given it leaves every
  \<open>employee\<close> assignment in place. In the store, a caller who is no admin deletes no
  role assignment at all.
\<close>

theorem remove_employee_role_guard:
  "handleRemoveRole ctx userId ''employee'' db = (db, ''Cannot remove employee role'')
   \<and> filter (\<lambda>x. ur_role x = Employee) (user_roles (fst (handleRemoveRole ctx userId role' db)))
       = filter (\<lambda>x. ur_role x = Employee) (user_roles db)
   \<and> (\<not> has_role db (auth_uid c) Admin \<longrightarrow> delete_user_role u r c db = db)"
proof (intro conjI impI)
  show "handleRemoveRole ctx userId ''employee'' db = (db, ''Cannot remove employee role'')"
    by (simp add: handleRemoveRole_def)
  show "filter (\<lambda>x. ur_role x = Employee) (user_roles (fst (handleRemoveRole ctx userId role' db)))
       = filter (\<lambda>x. ur_role x = Employee) (user_roles db)"
    by (auto simp: handleRemoveRole_def app_role_of_def delete_user_role_keeps_other
             split: option.splits if_splits)
  assume "\<not> has_role db (auth_uid c) Admin"
  then show "delete_user_role u r c db = db" by (rule delete_user_role_not_admin)
qed

theorem remove_employee_role_guard_witness:
  "handleRemoveRole \<lparr>user = Some ''root'', isAdmin = True, isResponder = True\<rparr>
       ''u2'' ''employee'' example_db
     = (example_db, ''Cannot remove employee role'')
   \<and> delete_user_role ''u2'' Employee (User ''u1'') example_db = example_db"
proof -
  have "\<not> has_role example_db (auth_uid (User ''u1'')) Admin"
    by (simp add: has_role_def example_defs)
  with remove_employee_role_guard
    [where ctx = "\<lparr>user = Some ''root'', isAdmin = True, isResponder = True\<rparr>"
       and userId = "''u2''" and db = example_db and role' = "''employee''"
       and c = "User ''u1''" and u = "''u2''" and r = Employee]
  show ?thesis by blast
qed

text \<open>
  The policy of the store does not single out \<open>employee\<close>: an admin's delete of that
  assignment passes, and the user is left without the role.
\<close>

theorem admin_can_delete_employee_role:
  "has_role example_db (Some ''root'') Admin
   \<and> has_role example_db (Some ''u2'') Employee
   \<and> has_role (delete_user_role ''u2'' Employee (User ''root'') example_db) (Some ''u2'') Employee = False"
  by code_simp

text \<open>
  C8. The policies that the migrations leave on \<open>profiles\<close> include one whose
  expression is \<open>true\<close> for every signed-in caller; policies are alternatives, so a user
  who is no admin reads every row of the table, \<open>email\<close> included.
\<close>

theorem profiles_readable_by_any_user:
  "has_role example_db (Some ''u2'') Admin = False
   \<and> map (\<lambda>p. (p_user_id p, p_email p)) (select_profiles (User ''u2'') example_db)
       = [(''u1'', ''alice@example.com''), (''u2'', ''dave@example.com''),
          (''a1'', ''bob@example.com''), (''a2'', ''carol@example.com'')]"
  by code_simp

lemma select_profiles_user: "select_profiles (User u) db = profiles db"
  by (simp add: select_profiles_def rls_select_profile)

lemma select_profiles_public_user:
  "select_profiles_public (User u) db = map public_columns (profiles db)"
  by (simp add: select_profiles_public_def select_profiles_user)


section \<open>Properties of the notification function\<close>

lemma filter_question_id:
  "distinct (map q_id qs) \<Longrightarrow> q \<in> set qs \<Longrightarrow> filter (\<lambda>r. q_id r = q_id q) qs = [q]"
proof (induction qs)
  case Nil
  then show ?case by simp
next
  case (Cons x xs)
  show ?case
  proof (cases "x = q")
    case True
    with Cons.prems have "q_id q \<notin> q_id ` set xs" by simp
    then have "\<forall>r \<in> set xs. q_id r \<noteq> q_id q" by (metis imageI)
    then have "filter (\<lambda>r. q_id r = q_id q) xs = []" by (simp add: filter_empty_conv)
    with True show ?thesis by simp
  next
    case False
    with Cons.prems have "q \<in> set xs" "q_id x \<noteq> q_id q" "distinct (map q_id xs)" by auto
    with Cons.IH show ?thesis by simp
  qed
qed

lemma handler_found:
  assumes "req_method req \<noteq> ''OPTIONS''"
    and "req_authorization req = Some t" and "t \<noteq> []" and "getUser e t = Some uid"
    and "req_json req = Parsed (Some qp)" and "qp_id qp = Some (q_id q)" and "q_id q \<noteq> []"
    and "\<not> query_error e Q_questions"
    and "q \<in> set (questions (env_db e))" and "questions_unique (env_db e)"
  shows "handler e req =
     (if q_author_id q \<noteq> Some uid
      then (json_response 403 [(''error'', ''Unauthorized - not the question author'')], [])
      else notify e q)"
proof -
  from assms(9,10) have "filter (\<lambda>r. q_id r = q_id q) (questions (env_db e)) = [q]"
    unfolding questions_unique_def by (intro filter_question_id)
  with assms(1-8) show ?thesis by (simp add: handler_def)
qed

lemma handler_sends:
  "snd (handler e req) = [] \<or> (\<exists>q. handler e req = notify e q)"
  by (auto simp: handler_def internal_server_error_def
           split: option.splits request_json.splits)

lemma notify_sends:
  "snd (notify e q) = [] \<or> (\<exists>dep ps. notify e q = send_notifications e dep q (author_name e q) ps)"
  by (auto simp: notify_def internal_server_error_def Let_def split: option.splits)

lemma string_of_nat_small:
  "string_of_nat (Suc 0) = ''1''" "string_of_nat (Suc (Suc 0)) = ''2''"
  by (simp_all add: string_of_nat.simps digit_def)

lemma send_all_count:
  "length (filter (\<lambda>r. r) (send_all e ms)) = length (filter (\<lambda>m. resend_send e m = Sent) ms)"
  by (induction ms) (auto simp: send_all_def split: send_outcome.splits)

lemma send_notifications_eq:
  "send_notifications e dep q an ps =
     (json_response 200
        [(''message'', ''Notifications sent to ''
            @ string_of_nat (length (filter (\<lambda>m. resend_send e m = Sent)
                 (map (notification_email dep q an) ps)))
            @ ''/'' @ string_of_nat (length ps) @ '' admins'')],
      map (notification_email dep q an) ps)"
  by (simp add: send_notifications_def Let_def send_all_count) (simp add: send_all_def)

lemma notify_dispatch:
  assumes "q_department_id q = Some d" and "d \<noteq> []"
    and "\<not> query_error e Q_departments" and "\<not> query_error e Q_department_admins"
    and "\<not> query_error e Q_profiles"
    and "filter (\<lambda>x. d_id x = d) (departments (env_db e)) = [dep]"
    and "resolved_admin_profiles (env_db e) d \<noteq> []"
  shows "notify e q = send_notifications e dep q (author_name e q) (resolved_admin_profiles (env_db e) d)"
proof -
  from assms(7) have "filter (\<lambda>a. da_department_id a = d) (department_admins (env_db e)) \<noteq> []"
    by (auto simp: resolved_admin_profiles_def filter_empty_conv)
  with assms show ?thesis
    by (simp add: notify_def Let_def resolved_admin_profiles_def)
qed

text \<open>
  C6. A signed-in caller who is not the recorded author of the question named in the
  request gets status 403, and no mail is handed to the transport.
\<close>

theorem dispatcher_rejects_non_author:
  assumes "req_method req \<noteq> ''OPTIONS''"
    and "req_authorization req = Some t" and "t \<noteq> []" and "getUser e t = Some uid"
    and "req_json req = Parsed (Some qp)" and "qp_id qp = Some (q_id q)" and "q_id q \<noteq> []"
    and "\<not> query_error e Q_questions"
    and "q \<in> set (questions (env_db e))" and "questions_unique (env_db e)"
    and "q_author_id q \<noteq> Some uid"
  shows "handler e req =
     (json_response 403 [(''error'', ''Unauthorized - not the question author'')], [])"
  using handler_found [OF assms(1-10)] assms(11) by simp

theorem dispatcher_rejects_non_author_witness:
  "handler example_env (example_request ''Bearer u2'' ''q2'') =
     (json_response 403 [(''error'', ''Unauthorized - not the question author'')], [])"
  by (rule dispatcher_rejects_non_author
        [where t = "''Bearer u2''" and uid = "''u2''" and q = example_q2
           and qp = "\<lparr>qp_id = Some ''q2'', qp_title = [], qp_content = [],
         qp_department_id = None, qp_is_anonymous = False, qp_author_id = None\<rparr>"])
     (simp_all add: example_request_def example_env_def example_defs questions_unique_def)

text \<open>
  C7. The author's request for a question whose department resolves to exactly two admin
  profiles hands exactly two mails to the transport, one per profile; when one of the
  two sends throws, the handler still answers with status 200 and the summary
  \<open>1/2\<close>, and both mails were attempted.
\<close>

theorem two_admins_one_failure:
  assumes "req_method req \<noteq> ''OPTIONS''"
    and "req_authorization req = Some t" and "t \<noteq> []" and "getUser e t = Some uid"
    and "req_json req = Parsed (Some qp)" and "qp_id qp = Some (q_id q)" and "q_id q \<noteq> []"
    and "\<not> query_error e Q_questions"
    and "q \<in> set (questions (env_db e))" and "questions_unique (env_db e)"
    and "q_author_id q = Some uid"
    and "q_department_id q = Some d" and "d \<noteq> []"
    and "\<not> query_error e Q_departments" and "\<not> query_error e Q_department_admins"
    and "\<not> query_error e Q_profiles"
    and "filter (\<lambda>x. d_id x = d) (departments (env_db e)) = [dep]"
    and "resolved_admin_profiles (env_db e) d = [adminA, adminB]"
    and "mailA = notification_email dep q (author_name e q) adminA"
    and "mailB = notification_email dep q (author_name e q) adminB"
    and "(resend_send e mailA = Sent) \<noteq> (resend_send e mailB = Sent)"
  shows "handler e req =
     (json_response 200 [(''message'', ''Notifications sent to 1/2 admins'')], [mailA, mailB])"
proof -
  have "handler e req = notify e q"
    using handler_found [OF assms(1-10)] assms(11) by simp
  also have "\<dots> = send_notifications e dep q (author_name e q) [adminA, adminB]"
    using notify_dispatch [OF assms(12-17)] assms(18) by simp
  also have "\<dots> = (json_response 200 [(''message'', ''Notifications sent to 1/2 admins'')], [mailA, mailB])"
    using assms(19-21) by (auto simp: send_notifications_eq string_of_nat_small)
  finally show ?thesis .
qed

theorem two_admins_one_failure_witness:
  "handler example_env (example_request ''Bearer u1'' ''q2'') =
     (json_response 200 [(''message'', ''Notifications sent to 1/2 admins'')],
      [notification_email \<lparr>d_id = ''d1'', d_name = ''Engineering''\<rparr> example_q2 ''Alice'' example_bob,
       notification_email \<lparr>d_id = ''d1'', d_name = ''Engineering''\<rparr> example_q2 ''Alice'' example_carol])"
  by (rule two_admins_one_failure
        [where t = "''Bearer u1''" and uid = "''u1''" and q = example_q2 and d = "''d1''"
           and dep = "\<lparr>d_id = ''d1'', d_name = ''Engineering''\<rparr>"
           and adminA = example_bob and adminB = example_carol
           and qp = "\<lparr>qp_id = Some ''q2'', qp_title = [], qp_content = [],
         qp_department_id = None, qp_is_anonymous = False, qp_author_id = None\<rparr>"])
     (simp_all add: example_request_def example_env_def example_defs questions_unique_def
        resolved_admin_profiles_def author_name_def notification_email_def)

text \<open>
  C9, as the code has it. Whenever the handler handed a mail to the transport, it answers
  with status 200 and a body of one field, \<open>message\<close>, whose text carries the two
  numbers: how many of the attempted sends returned, and how many were attempted.
\<close>

theorem dispatch_summary_message:
  assumes "snd (handler e req) \<noteq> []"
  shows "fst (handler e req) =
     json_response 200
       [(''message'', ''Notifications sent to ''
           @ string_of_nat (length (filter (\<lambda>m. resend_send e m = Sent) (snd (handler e req))))
           @ ''/'' @ string_of_nat (length (snd (handler e req))) @ '' admins'')]"
proof -
  from assms handler_sends [of e req] obtain q where h: "handler e req = notify e q" by auto
  with assms notify_sends [of e q] obtain dep ps
    where "handler e req = send_notifications e dep q (author_name e q) ps" by auto
  then show ?thesis by (simp add: send_notifications_eq)
qed

theorem dispatch_summary_message_witness:
  "fst (handler example_env (example_request ''Bearer u1'' ''q2'')) =
     json_response 200 [(''message'', ''Notifications sent to 1/2 admins'')]"
proof -
  let ?h = "handler example_env (example_request ''Bearer u1'' ''q2'')"
  have "snd ?h \<noteq> []" by code_simp
  then have summary: "fst ?h = json_response 200
       [(''message'', ''Notifications sent to ''
           @ string_of_nat (length (filter (\<lambda>m. resend_send example_env m = Sent) (snd ?h)))
           @ ''/'' @ string_of_nat (length (snd ?h)) @ '' admins'')]"
    by (rule dispatch_summary_message)
  have msg: "''Notifications sent to ''
           @ string_of_nat (length (filter (\<lambda>m. resend_send example_env m = Sent) (snd ?h)))
           @ ''/'' @ string_of_nat (length (snd ?h)) @ '' admins''
         = ''Notifications sent to 1/2 admins''"
    by code_simp
  from summary [unfolded msg] show ?thesis .
qed

text \<open>
  The body has no field \<open>successCount\<close> and no field \<open>total\<close>: after two attempts
  of which one threw, it is the one field \<open>message\<close>.
\<close>

theorem dispatch_summary_fields:
  "length (snd (handler example_env (example_request ''Bearer u1'' ''q2''))) = 2
   \<and> resp_body (fst (handler example_env (example_request ''Bearer u1'' ''q2'')))
       = Some [(''message'', ''Notifications sent to 1/2 admins'')]
   \<and> map_of [(''message'', ''Notifications sent to 1/2 admins'')] ''successCount'' = None
   \<and> map_of [(''message'', ''Notifications sent to 1/2 admins'')] ''total'' = None"
  by code_simp

lemma anonymous_author_null:
  "rls_permits questions_policies db0 (User creator) FOR_INSERT q \<Longrightarrow> q_is_anonymous q
     \<Longrightarrow> q_author_id q = None"
  by (simp add: rls_insert_question)

lemma handler_author_null:
  assumes "req_json req = Parsed (Some qp)" and "qp_id qp = Some (q_id q)"
    and "q \<in> set (questions (env_db e))" and "questions_unique (env_db e)"
    and "q_author_id q = None"
  shows "snd (handler e req) = []"
proof -
  from assms(3,4) have "filter (\<lambda>r. q_id r = q_id q) (questions (env_db e)) = [q]"
    unfolding questions_unique_def by (intro filter_question_id)
  with assms(1,2,5) show ?thesis
    by (auto simp: handler_def split: option.splits)
qed

text \<open>
  C10. A question that the creation policy admitted as anonymous has no author. For a
  request that names it the handler hands no mail to the transport, whoever calls; and
  every signed-in caller, its creator included, gets status 403.
\<close>

theorem anonymous_question_never_notified:
  assumes "rls_permits questions_policies db0 (User creator) FOR_INSERT q"
    and "q_is_anonymous q"
    and "q \<in> set (questions (env_db e))" and "questions_unique (env_db e)"
    and "req_json req = Parsed (Some qp)" and "qp_id qp = Some (q_id q)"
  shows "q_author_id q = None \<and> snd (handler e req) = []
     \<and> (req_method req \<noteq> ''OPTIONS'' \<and> req_authorization req = Some t \<and> t \<noteq> []
          \<and> getUser e t = Some uid \<and> q_id q \<noteq> [] \<and> \<not> query_error e Q_questions
        \<longrightarrow> handler e req =
              (json_response 403 [(''error'', ''Unauthorized - not the question author'')], []))"
proof (intro conjI impI)
  from assms(1,2) show null: "q_author_id q = None" by (rule anonymous_author_null)
  with assms(3-6) show "snd (handler e req) = []" by (intro handler_author_null)
  assume "req_method req \<noteq> ''OPTIONS'' \<and> req_authorization req = Some t \<and> t \<noteq> []
          \<and> getUser e t = Some uid \<and> q_id q \<noteq> [] \<and> \<not> query_error e Q_questions"
  with assms(3-6) null handler_found [of req t e uid qp q]
  show "handler e req =
     (json_response 403 [(''error'', ''Unauthorized - not the question author'')], [])"
    by simp
qed

theorem anonymous_question_never_notified_witness:
  "q_author_id example_q1 = None
   \<and> snd (handler example_env (example_request ''Bearer u1'' ''q1'')) = []
   \<and> handler example_env (example_request ''Bearer u1'' ''q1'') =
       (json_response 403 [(''error'', ''Unauthorized - not the question author'')], [])"
proof -
  let ?req = "example_request ''Bearer u1'' ''q1''"
  let ?qp = "\<lparr>qp_id = Some ''q1'', qp_title = [], qp_content = [],
         qp_department_id = None, qp_is_anonymous = False, qp_author_id = None\<rparr>"
  have 1: "rls_permits questions_policies example_db (User ''u1'') FOR_INSERT example_q1"
    by (simp add: rls_insert_question example_q1_def)
  have 2: "q_is_anonymous example_q1" by (simp add: example_q1_def)
  have 3: "example_q1 \<in> set (questions (env_db example_env))"
    by (simp add: example_env_def example_db_def)
  have 4: "questions_unique (env_db example_env)"
    by (simp add: example_env_def example_defs questions_unique_def)
  have 5: "req_json ?req = Parsed (Some ?qp)" by (simp add: example_request_def)
  have 6: "qp_id ?qp = Some (q_id example_q1)" by (simp add: example_q1_def)
  have 7: "req_method ?req \<noteq> ''OPTIONS'' \<and> req_authorization ?req = Some ''Bearer u1''
      \<and> ''Bearer u1'' \<noteq> [] \<and> getUser example_env ''Bearer u1'' = Some ''u1''
      \<and> q_id example_q1 \<noteq> [] \<and> \<not> query_error example_env Q_questions"
    by (simp add: example_request_def example_env_def example_q1_def)
  from anonymous_question_never_notified
         [where t = "''Bearer u1''" and uid = "''u1''", OF 1 2 3 4 5 6] 7
  show ?thesis by blast
qed

end
